theory Spec2Isabelle
  imports Main "HOL-Library.AList"
begin

section \<open>JavaScript values\<close>

text \<open>
  The values that travel between the callers, the adapter and the database driver.
  Numbers are modelled as integers (identifiers, flags and counters); a \<open>Date\<close> is its
  time value in milliseconds. Objects keep their keys in insertion order.
\<close>

datatype val =
    VUndef
  | VNull
  | VBool bool
  | VNum int
  | VStr string
  | VDate int
  | VArr "val list"
  | VObj "(string \<times> val) list"

type_synonym obj = "(string \<times> val) list"

datatype error = TypeError | SchemaError

text \<open>JavaScript truthiness: \<open>undefined\<close>, \<open>null\<close>, \<open>false\<close>, \<open>0\<close> and \<open>""\<close> are falsy.\<close>

fun truthy :: "val \<Rightarrow> bool" where
  "truthy VUndef = False"
| "truthy VNull = False"
| "truthy (VBool b) = b"
| "truthy (VNum n) = (n \<noteq> 0)"
| "truthy (VStr s) = (s \<noteq> [])"
| "truthy (VDate d) = True"
| "truthy (VArr xs) = True"
| "truthy (VObj kvs) = True"

fun isArray :: "val \<Rightarrow> bool" where
  "isArray (VArr xs) = True"
| "isArray v = False"

fun isDate :: "val \<Rightarrow> bool" where
  "isDate (VDate d) = True"
| "isDate v = False"

text \<open>\<open>String.prototype.toLowerCase\<close> on ASCII text.\<close>

definition lowerChar :: "char \<Rightarrow> char" where
  "lowerChar c =
     (let n = (of_char c :: nat) in if 65 \<le> n \<and> n \<le> 90 then char_of (n + 32) else c)"

definition toLowerCase :: "string \<Rightarrow> string" where
  "toLowerCase s = map lowerChar s"

text \<open>Decimal rendering of a number, as \<open>String(n)\<close> gives it for an integer (of
  fewer than 22 digits).\<close>

function showNat :: "nat \<Rightarrow> string" where
  "showNat n = (if n < 10 then [char_of (48 + n)] else showNat (n div 10) @ [char_of (48 + n mod 10)])"
  by pat_completeness auto
termination
  by (relation "measure id") auto

declare showNat.simps [simp del]

definition showInt :: "int \<Rightarrow> string" where
  "showInt i = (if i < 0 then CHR ''-'' # showNat (nat (- i)) else showNat (nat i))"

fun joinWith :: "string \<Rightarrow> string list \<Rightarrow> string" where
  "joinWith sep [] = []"
| "joinWith sep [x] = x"
| "joinWith sep (x # y # ys) = x @ sep @ joinWith sep (y # ys)"

text \<open>
  The string a template literal \<open>`${value}`\<close> puts in for a value. The text of a
  \<open>Date\<close> depends on the host's time zone and is the parameter \<open>dts\<close>.
\<close>

fun toStringJS :: "(int \<Rightarrow> string) \<Rightarrow> val \<Rightarrow> string" where
  "toStringJS dts VUndef = ''undefined''"
| "toStringJS dts VNull = ''null''"
| "toStringJS dts (VBool b) = (if b then ''true'' else ''false'')"
| "toStringJS dts (VNum n) = showInt n"
| "toStringJS dts (VStr s) = s"
| "toStringJS dts (VDate d) = dts d"
| "toStringJS dts (VArr xs) =
     joinWith '','' (map (\<lambda>x. case x of VUndef \<Rightarrow> [] | VNull \<Rightarrow> [] | _ \<Rightarrow> toStringJS dts x) xs)"
| "toStringJS dts (VObj kvs) = ''[object Object]''"

section \<open>Schema and adapter configuration\<close>

record fieldAttr =
  f_type :: string
  f_fieldName :: "string option"
  f_unique :: "bool option"

record modelDef =
  m_modelName :: string
  m_fields :: "(string \<times> fieldAttr) list"

type_synonym schema = "(string \<times> modelDef) list"

text \<open>\<open>KyselyAdapterConfig\<close>; the adapter may be built without one.\<close>

record kyselyConfig =
  k_type :: "string option"
  k_usePlural :: "bool option"
  k_transaction :: "bool option"

definition cfgType :: "kyselyConfig option \<Rightarrow> string option" where
  "cfgType config = (case config of None \<Rightarrow> None | Some c \<Rightarrow> k_type c)"

section \<open>The Kysely adapter: values handed to the database\<close>

text \<open>
  \<open>transformValueToDB(value, model, field)\<close>. When the schema has no such field under
  the model, the code looks for a model whose \<open>modelName\<close> is \<open>model\<close> and reads its
  \<open>type\<close> (a model has none); when there is no such model either, reading \<open>type\<close> of
  \<open>undefined\<close> throws.
\<close>

definition schemaField :: "schema \<Rightarrow> string \<Rightarrow> string \<Rightarrow> fieldAttr option" where
  "schemaField schema model field =
     (case map_of schema model of None \<Rightarrow> None | Some m \<Rightarrow> map_of (m_fields m) field)"

definition transformValueToDB ::
  "(int \<Rightarrow> string) \<Rightarrow> kyselyConfig option \<Rightarrow> schema \<Rightarrow> val \<Rightarrow> string \<Rightarrow> string \<Rightarrow> error + val" where
  "transformValueToDB toISOString config schema value model field =
     (if field = ''id'' then Inr value
      else
        let type = (case cfgType config of None \<Rightarrow> ''sqlite'' | Some t \<Rightarrow> t);
            f = (case schemaField schema model field of
                   Some a \<Rightarrow> Some (Some (f_type a))
                 | None \<Rightarrow>
                    (case find (\<lambda>m. m_modelName m = model) (map snd schema) of
                       None \<Rightarrow> None
                     | Some m \<Rightarrow> Some None))
        in case f of
             None \<Rightarrow> Inl TypeError
           | Some ftype \<Rightarrow>
               if ftype = Some ''boolean'' \<and> (type = ''sqlite'' \<or> type = ''mssql'')
                  \<and> value \<noteq> VNull \<and> value \<noteq> VUndef
               then Inr (if truthy value then VNum 1 else VNum 0)
               else if ftype = Some ''date'' \<and> truthy value \<and> isDate value
               then (if type = ''sqlite''
                     then Inr (case value of VDate d \<Rightarrow> VStr (toISOString d) | _ \<Rightarrow> value)
                     else Inr value)
               else Inr value)"

section \<open>The Kysely adapter: compiling a Where list\<close>

text \<open>
  A clause of a \<open>Where\<close> list; \<open>operator\<close> and \<open>connector\<close> are optional.
\<close>

record whereClause =
  w_field :: string
  w_value :: val
  w_operator :: "string option"
  w_connector :: "string option"

text \<open>
  What the expression builder \<open>eb\<close> is asked to build: \<open>eb(ref, op, value)\<close>,
  \<open>eb.and([...])\<close> and \<open>eb.or([...])\<close>.
\<close>

datatype expr =
    Cmp string string val
  | EAnd "expr list"
  | EOr "expr list"

text \<open>
  The closure \<open>expr\<close> of \<open>convertWhereClause\<close>, for a resolved field name and a value
  already passed through \<open>transformValueToDB\<close>.
\<close>

definition whereExpr :: "(int \<Rightarrow> string) \<Rightarrow> string \<Rightarrow> string \<Rightarrow> string \<Rightarrow> val \<Rightarrow> expr" where
  "whereExpr dts model field operator value =
     (if toLowerCase operator = ''in''
      then Cmp field ''in'' (if isArray value then value else VArr [value])
      else if toLowerCase operator = ''not_in''
      then Cmp field ''not in'' (if isArray value then value else VArr [value])
      else if operator = ''contains''
      then Cmp (model @ ''.'' @ field) ''like'' (VStr (''%'' @ toStringJS dts value @ ''%''))
      else if operator = ''starts_with''
      then Cmp (model @ ''.'' @ field) ''like'' (VStr (toStringJS dts value @ ''%''))
      else if operator = ''ends_with''
      then Cmp (model @ ''.'' @ field) ''like'' (VStr (''%'' @ toStringJS dts value))
      else if operator = ''eq'' then Cmp (model @ ''.'' @ field) ''='' value
      else if operator = ''ne'' then Cmp (model @ ''.'' @ field) ''<>'' value
      else if operator = ''gt'' then Cmp (model @ ''.'' @ field) ''>'' value
      else if operator = ''gte'' then Cmp (model @ ''.'' @ field) ''>='' value
      else if operator = ''lt'' then Cmp (model @ ''.'' @ field) ''<'' value
      else if operator = ''lte'' then Cmp (model @ ''.'' @ field) ''<='' value
      else Cmp (model @ ''.'' @ field) operator value)"

text \<open>
  The body of the \<open>forEach\<close>: the defaults of the destructuring
  (\<open>operator = "="\<close>, \<open>connector = "AND"\<close>), the field name resolved by
  \<open>getFieldName\<close> (a helper the adapter is given), the value passed through
  \<open>transformValueToDB\<close> (the side of the unresolved merge that binds \<open>value\<close>; the
  other side reads an unbound \<open>_value\<close>).
\<close>

definition compileClause ::
  "(int \<Rightarrow> string) \<Rightarrow> (int \<Rightarrow> string) \<Rightarrow> kyselyConfig option \<Rightarrow> schema \<Rightarrow>
   (string \<Rightarrow> string \<Rightarrow> error + string) \<Rightarrow> string \<Rightarrow> whereClause \<Rightarrow> error + expr" where
  "compileClause toISOString dts config schema getFieldName model condition =
     (let operator = (case w_operator condition of None \<Rightarrow> ''='' | Some op \<Rightarrow> op)
      in case getFieldName model (w_field condition) of
           Inl e \<Rightarrow> Inl e
         | Inr field \<Rightarrow>
            (case transformValueToDB toISOString config schema (w_value condition) model
                    (w_field condition) of
               Inl e \<Rightarrow> Inl e
             | Inr value \<Rightarrow> Inr (whereExpr dts model field operator value)))"

definition clauseConnector :: "whereClause \<Rightarrow> string" where
  "clauseConnector condition = (case w_connector condition of None \<Rightarrow> ''AND'' | Some c \<Rightarrow> c)"

fun convertClauses ::
  "(whereClause \<Rightarrow> error + expr) \<Rightarrow> whereClause list \<Rightarrow> expr list \<times> expr list \<Rightarrow>
   error + (expr list \<times> expr list)" where
  "convertClauses compile [] conditions = Inr conditions"
| "convertClauses compile (c # cs) (ands, ors) =
     (case compile c of
        Inl e \<Rightarrow> Inl e
      | Inr ex \<Rightarrow>
          if clauseConnector c = ''OR'' then convertClauses compile cs (ands, ors @ [ex])
          else convertClauses compile cs (ands @ [ex], ors))"

definition convertWhereClause ::
  "(int \<Rightarrow> string) \<Rightarrow> (int \<Rightarrow> string) \<Rightarrow> kyselyConfig option \<Rightarrow> schema \<Rightarrow>
   (string \<Rightarrow> string \<Rightarrow> error + string) \<Rightarrow> string \<Rightarrow> whereClause list option \<Rightarrow>
   error + (expr list option \<times> expr list option)" where
  "convertWhereClause toISOString dts config schema getFieldName model w =
     (case w of
        None \<Rightarrow> Inr (None, None)
      | Some cs \<Rightarrow>
         (case convertClauses (compileClause toISOString dts config schema getFieldName model) cs ([], []) of
            Inl e \<Rightarrow> Inl e
          | Inr (ands, ors) \<Rightarrow>
              Inr (if ands \<noteq> [] then Some ands else None,
                   if ors \<noteq> [] then Some ors else None)))"

text \<open>
  The query under construction. \<open>query.where(...)\<close> adds a condition to the ones
  already there; the database keeps the rows that satisfy all of them.
\<close>

datatype joinKind = InnerJoin | LeftJoin

record query =
  q_from :: string
  q_selectAll :: "string option option"
  q_where :: "expr list"
  q_joins :: "(joinKind \<times> string \<times> string \<times> string) list"
  q_top :: "int option"
  q_limit :: "int option"
  q_orderBy :: "(string \<times> string option) list"
  q_offset :: "int option"
  q_fetch :: "int option"
  q_select :: "(string \<times> string \<times> string) list"

definition selectFrom :: "string \<Rightarrow> query" where
  "selectFrom model =
     \<lparr>q_from = model, q_selectAll = None, q_where = [], q_joins = [], q_top = None,
      q_limit = None, q_orderBy = [], q_offset = None, q_fetch = None, q_select = []\<rparr>"

text \<open>
  The two \<open>if\<close>s that every operation runs on the result of \<open>convertWhereClause\<close>:
  \<open>if (and) query = query.where(eb.and(...)); if (or) query = query.where(eb.or(...))\<close>.
\<close>

definition applyWhere :: "expr list option \<times> expr list option \<Rightarrow> query \<Rightarrow> query" where
  "applyWhere conds query =
     (let q1 = (case fst conds of
                  Some ands \<Rightarrow> query\<lparr>q_where := q_where query @ [EAnd ands]\<rparr>
                | None \<Rightarrow> query)
      in case snd conds of
           Some ors \<Rightarrow> q1\<lparr>q_where := q_where q1 @ [EOr ors]\<rparr>
         | None \<Rightarrow> q1)"

text \<open>
  What a compiled condition means on a row; the comparison \<open>cmp ref op value row\<close> is the
  database's own.
\<close>

fun holds :: "(string \<Rightarrow> string \<Rightarrow> val \<Rightarrow> 'r \<Rightarrow> bool) \<Rightarrow> 'r \<Rightarrow> expr \<Rightarrow> bool" where
  "holds cmp row (Cmp ref op v) = cmp ref op v row"
| "holds cmp row (EAnd es) = list_all (holds cmp row) es"
| "holds cmp row (EOr es) = list_ex (holds cmp row) es"

definition matches :: "(string \<Rightarrow> string \<Rightarrow> val \<Rightarrow> 'r \<Rightarrow> bool) \<Rightarrow> query \<Rightarrow> 'r \<Rightarrow> bool" where
  "matches cmp query row = list_all (holds cmp row) (q_where query)"

text \<open>
  The clauses of a \<open>Where\<close> list that may be absent, and the two groups of their
  compiled expressions, by connector.
\<close>

definition whereList :: "whereClause list option \<Rightarrow> whereClause list" where
  "whereList w = (case w of None \<Rightarrow> [] | Some cs \<Rightarrow> cs)"

definition andGroup :: "whereClause list \<Rightarrow> expr list \<Rightarrow> expr list" where
  "andGroup cs es = map snd (filter (\<lambda>ce. w_connector (fst ce) \<noteq> Some ''OR'') (zip cs es))"

definition orGroup :: "whereClause list \<Rightarrow> expr list \<Rightarrow> expr list" where
  "orGroup cs es = map snd (filter (\<lambda>ce. w_connector (fst ce) = Some ''OR'') (zip cs es))"

section \<open>The Kysely adapter: findMany\<close>

definition bindE :: "error + 'a \<Rightarrow> ('a \<Rightarrow> error + 'b) \<Rightarrow> error + 'b" where
  "bindE m f = (case m of Inl e \<Rightarrow> Inl e | Inr x \<Rightarrow> f x)"

text \<open>An entry of a resolved join: \<open>{type, on: {from, to}}\<close>.\<close>

record joinAttr =
  j_type :: string
  j_from :: string
  j_to :: string

type_synonym joinConfig = "(string \<times> joinAttr) list"

record sortBy =
  s_field :: string
  s_direction :: string

text \<open>\<open>limit || 100\<close> and the test \<open>if (offset)\<close> on an optional number.\<close>

definition limitOr100 :: "int option \<Rightarrow> int" where
  "limitOr100 limit = (case limit of None \<Rightarrow> 100 | Some n \<Rightarrow> if n = 0 then 100 else n)"

definition given :: "int option \<Rightarrow> bool" where
  "given offset = (case offset of None \<Rightarrow> False | Some n \<Rightarrow> n \<noteq> 0)"

text \<open>The loop \<open>for (const [joinModel, joinAttr] of Object.entries(join))\<close> that adds the joins.\<close>

definition addJoins :: "string \<Rightarrow> joinConfig \<Rightarrow> query \<Rightarrow> query" where
  "addJoins model join query =
     fold (\<lambda>(joinModel, joinAttr) q.
             q\<lparr>q_joins := q_joins q @
                [(if j_type joinAttr = ''inner'' then InnerJoin else LeftJoin, joinModel,
                  joinModel @ ''.'' @ j_to joinAttr, model @ ''.'' @ j_from joinAttr)]\<rparr>)
          join query"

text \<open>
  \<open>findMany\<close> from the conversion of the Where list to the handling of \<open>offset\<close>
  (the part of the function that no side of the unresolved merge touches), on the query
  \<open>q0\<close> that it starts from.
\<close>

definition findManyQuery ::
  "(int \<Rightarrow> string) \<Rightarrow> (int \<Rightarrow> string) \<Rightarrow> kyselyConfig option \<Rightarrow> schema \<Rightarrow>
   (string \<Rightarrow> string \<Rightarrow> error + string) \<Rightarrow> string \<Rightarrow> whereClause list option \<Rightarrow>
   int option \<Rightarrow> int option \<Rightarrow> sortBy option \<Rightarrow> joinConfig option \<Rightarrow> query \<Rightarrow> error + query" where
  "findManyQuery toISOString dts config schema getFieldName model w limit offset sortBy join q0 =
     bindE (convertWhereClause toISOString dts config schema getFieldName model w) (\<lambda>conds.
       let query = applyWhere conds q0;
           query = (case join of None \<Rightarrow> query | Some j \<Rightarrow> addJoins model j query);
           query = (if cfgType config = Some ''mssql''
                    then (if \<not> given offset then query\<lparr>q_top := Some (limitOr100 limit)\<rparr>
                          else query)
                    else query\<lparr>q_limit := Some (limitOr100 limit)\<rparr>)
       in bindE (case sortBy of
                   None \<Rightarrow> Inr query
                 | Some sb \<Rightarrow>
                     bindE (getFieldName model (s_field sb)) (\<lambda>f.
                       Inr (query\<lparr>q_orderBy := q_orderBy query @ [(f, Some (s_direction sb))]\<rparr>)))
          (\<lambda>query.
            if given offset then
              (if cfgType config = Some ''mssql'' then
                 bindE (if sortBy = None
                        then bindE (getFieldName model ''id'') (\<lambda>f.
                               Inr (query\<lparr>q_orderBy := q_orderBy query @ [(f, None)]\<rparr>))
                        else Inr query)
                   (\<lambda>query. Inr (query\<lparr>q_offset := offset, q_fetch := Some (limitOr100 limit)\<rparr>))
               else Inr (query\<lparr>q_offset := offset\<rparr>))
            else Inr query))"

section \<open>The Kysely adapter: values read from the database\<close>

text \<open>
  \<open>transformValueFromDB(value)\<close> walks the arrays and objects of a result. The one branch
  that would change a value (a \<open>Date\<close> read from MySQL) is commented out in the source, so
  the walk rebuilds what it visits. \<open>typeof field === "object" && field !== null\<close> holds
  of dates, arrays and objects.
\<close>

fun isObjectType :: "val \<Rightarrow> bool" where
  "isObjectType (VDate d) = True"
| "isObjectType (VArr xs) = True"
| "isObjectType (VObj kvs) = True"
| "isObjectType v = False"

fun transformObject :: "kyselyConfig option \<Rightarrow> val \<Rightarrow> val" where
  "transformObject config (VObj kvs) =
     VObj (map (\<lambda>kv. (fst kv,
                 if isDate (snd kv) \<and> cfgType config = Some ''mysql'' then snd kv
                 else if isObjectType (snd kv) then transformObject config (snd kv)
                 else snd kv)) kvs)"
| "transformObject config (VArr xs) =
     VArr (map (\<lambda>field.
                 if isDate field \<and> cfgType config = Some ''mysql'' then field
                 else if isObjectType field then transformObject config field
                 else field) xs)"
| "transformObject config v = v"

definition transformValueFromDB :: "kyselyConfig option \<Rightarrow> val \<Rightarrow> val" where
  "transformValueFromDB config value =
     (case value of
        VArr items \<Rightarrow>
          VArr (map (\<lambda>item. if isObjectType item then transformObject config item else item) items)
      | _ \<Rightarrow> if isObjectType value then transformObject config value else value)"

section \<open>The Kysely adapter: joins\<close>

text \<open>
  The helper \<open>getDefaultModelName\<close> is given to the adapter; it is a parameter here, as
  \<open>getFieldName\<close> is. \<open>schema[name]?.fields\<close>, \<open>fieldAttr.fieldName || field\<close> and
  \<open>joinFieldAttr?.unique ?? false\<close>:
\<close>

definition schemaFields :: "schema \<Rightarrow> string \<Rightarrow> (string \<times> fieldAttr) list option" where
  "schemaFields schema name = map_option m_fields (map_of schema name)"

definition physicalName :: "fieldAttr \<Rightarrow> string \<Rightarrow> string" where
  "physicalName fieldAttr field =
     (case f_fieldName fieldAttr of None \<Rightarrow> field | Some n \<Rightarrow> if n = [] then field else n)"

definition isUniqueField :: "(string \<times> fieldAttr) list \<Rightarrow> string \<Rightarrow> bool" where
  "isUniqueField flds to =
     (case map_of flds to of
        None \<Rightarrow> False
      | Some a \<Rightarrow> (case f_unique a of None \<Rightarrow> False | Some u \<Rightarrow> u))"

text \<open>
  \<open>fields.id = { type: "string" }\<close> writes into the schema that the adapter holds.
\<close>

definition withIdField :: "(string \<times> fieldAttr) list \<Rightarrow> (string \<times> fieldAttr) list" where
  "withIdField flds =
     AList.update ''id'' \<lparr>f_type = ''string'', f_fieldName = None, f_unique = None\<rparr> flds"

definition setFields :: "schema \<Rightarrow> string \<Rightarrow> (string \<times> fieldAttr) list \<Rightarrow> schema" where
  "setFields schema name flds =
     map (\<lambda>(n, m). if n = name then (n, m\<lparr>m_fields := flds\<rparr>) else (n, m)) schema"

text \<open>
  The select list of a joined \<open>findOne\<close> / \<open>findMany\<close>. The merge is unresolved here:
  one side (commit "kysely working") aliases a column as \<open>joined_<model>_<field>\<close> and
  keeps the aliases as strings; the other (\<open>HEAD\<close>, after "make kysely joins start with
  underscore") aliases it as \<open>_joined_<model>_<field>\<close> and keeps the pairs of model and
  field. Each returns the schema as written, the selections \<open>(table, column, alias)\<close> and
  \<open>allSelectsStr\<close>.
\<close>

definition joinSelects_kw ::
  "(string \<Rightarrow> string) \<Rightarrow> joinConfig \<Rightarrow> schema \<Rightarrow>
   schema \<times> (string \<times> string \<times> string) list \<times> string list" where
  "joinSelects_kw getDefaultModelName join schema =
     fold (\<lambda>(joinModel, _) (schema, allSelects, allSelectsStr).
             case schemaFields schema (getDefaultModelName joinModel) of
               None \<Rightarrow> (schema, allSelects, allSelectsStr)
             | Some fields0 \<Rightarrow>
                 let fields = withIdField fields0
                 in (setFields schema (getDefaultModelName joinModel) fields,
                     allSelects @
                       map (\<lambda>(field, fieldAttr).
                              (joinModel, physicalName fieldAttr field,
                               ''joined_'' @ joinModel @ ''_'' @ physicalName fieldAttr field))
                           fields,
                     allSelectsStr @
                       map (\<lambda>(field, fieldAttr).
                              ''joined_'' @ joinModel @ ''_'' @ physicalName fieldAttr field)
                           fields))
          join (schema, [], [])"

definition joinSelects_head ::
  "(string \<Rightarrow> string) \<Rightarrow> joinConfig \<Rightarrow> schema \<Rightarrow>
   schema \<times> (string \<times> string \<times> string) list \<times> (string \<times> string) list" where
  "joinSelects_head getDefaultModelName join schema =
     fold (\<lambda>(joinModel, _) (schema, allSelects, allSelectsStr).
             case schemaFields schema (getDefaultModelName joinModel) of
               None \<Rightarrow> (schema, allSelects, allSelectsStr)
             | Some fields0 \<Rightarrow>
                 let fields = withIdField fields0
                 in (setFields schema (getDefaultModelName joinModel) fields,
                     allSelects @
                       map (\<lambda>(field, fieldAttr).
                              (joinModel, physicalName fieldAttr field,
                               ''_joined_'' @ joinModel @ ''_'' @ physicalName fieldAttr field))
                           fields,
                     allSelectsStr @
                       map (\<lambda>(field, fieldAttr). (joinModel, physicalName fieldAttr field))
                           fields))
          join (schema, [], [])"

text \<open>
  How \<open>processJoinedResults\<close> tells a joined column from a column of the base model:
  the search through \<open>allSelectsStr\<close>, on each side of the merge.
\<close>

definition isJoinedKey_kw :: "string list \<Rightarrow> string \<Rightarrow> bool" where
  "isJoinedKey_kw allSelectsStr keyStr = (find (\<lambda>selectStr. keyStr = selectStr) allSelectsStr \<noteq> None)"

definition isJoinedKey_head :: "(string \<times> string) list \<Rightarrow> string \<Rightarrow> bool" where
  "isJoinedKey_head allSelectsStr keyStr =
     (find (\<lambda>(joinModel, fieldName). keyStr = ''_joined_'' @ joinModel @ ''_'' @ fieldName)
        allSelectsStr \<noteq> None)"

text \<open>
  The fields of a joined model that the select list is built from (its schema fields
  after \<open>fields.id = ...\<close>; none when the schema lacks the model), and the columns
  \<open>(joined model, physical field name)\<close> of all joined models.
\<close>

definition joinFields :: "schema \<Rightarrow> (string \<Rightarrow> string) \<Rightarrow> string \<Rightarrow> (string \<times> fieldAttr) list" where
  "joinFields schema getDefaultModelName joinModel =
     (case schemaFields schema (getDefaultModelName joinModel) of
        None \<Rightarrow> []
      | Some flds \<Rightarrow> withIdField flds)"

definition requestedColumns :: "schema \<Rightarrow> (string \<Rightarrow> string) \<Rightarrow> joinConfig \<Rightarrow> (string \<times> string) list" where
  "requestedColumns schema getDefaultModelName join =
     concat (map (\<lambda>(joinModel, _).
                    map (\<lambda>(field, fieldAttr). (joinModel, physicalName fieldAttr field))
                        (joinFields schema getDefaultModelName joinModel))
                 join)"

text \<open>
  Two schemas that agree on the fields of every model once \<open>id\<close> is added: the relation
  between the schema before and after the writes of the select-list loop.
\<close>

abbreviation sameFields :: "schema \<Rightarrow> schema \<Rightarrow> bool" where
  "sameFields S schema \<equiv>
     (\<forall>d. map_option withIdField (schemaFields S d) = map_option withIdField (schemaFields schema d))"

section \<open>The Kysely adapter: processJoinedResults\<close>

text \<open>
  The side of the merge that keeps \<open>allSelectsStr\<close> as strings (commit "kysely
  working"), which needs no helper besides \<open>getDefaultModelName\<close>.

  \<open>===\<close> and the key comparison of a \<open>Map\<close> compare numbers, strings, booleans,
  \<open>null\<close> and \<open>undefined\<close> by value and everything else by reference; the values of
  different rows are different objects.
\<close>

fun isPrimitive :: "val \<Rightarrow> bool" where
  "isPrimitive (VDate d) = False"
| "isPrimitive (VArr xs) = False"
| "isPrimitive (VObj kvs) = False"
| "isPrimitive v = True"

definition strictEq :: "val \<Rightarrow> val \<Rightarrow> bool" where
  "strictEq a b = (isPrimitive a \<and> a = b)"

text \<open>\<open>obj[key]\<close> on an object, and \<open>item.id\<close> on any value (a \<open>TypeError\<close> on
  \<open>null\<close> and \<open>undefined\<close>).\<close>

definition objGet :: "obj \<Rightarrow> string \<Rightarrow> val" where
  "objGet kvs k = (case map_of kvs k of None \<Rightarrow> VUndef | Some v \<Rightarrow> v)"

fun getProp :: "val \<Rightarrow> string \<Rightarrow> error + val" where
  "getProp VNull k = Inl TypeError"
| "getProp VUndef k = Inl TypeError"
| "getProp (VObj kvs) k = Inr (objGet kvs k)"
| "getProp v k = Inr VUndef"





text \<open>\<open>items.some((item) => item.id === id)\<close>.\<close>

fun someIdEq :: "val list \<Rightarrow> val \<Rightarrow> error + bool" where
  "someIdEq [] v = Inr False"
| "someIdEq (item # items) v =
     bindE (getProp item ''id'') (\<lambda>itemId. if strictEq itemId v then Inr True else someIdEq items v)"

text \<open>The body of the loop that adds the joined record of the current row to the entry.\<close>

definition addJoined ::
  "schema \<Rightarrow> (string \<Rightarrow> string) \<Rightarrow> (string \<times> obj) list \<Rightarrow> string \<times> joinAttr \<Rightarrow> obj \<Rightarrow> error + obj" where
  "addJoined schema getDefaultModelName joinedModelFields j entry =
     (let defaultModelName = getDefaultModelName (fst j);
          isUnique = (case schemaFields schema defaultModelName of
                        None \<Rightarrow> False
                      | Some flds \<Rightarrow> isUniqueField flds (j_to (snd j)));
          joinedObj = map_of joinedModelFields (fst j)
      in if isUnique
         then Inr (AList.update defaultModelName
                     (case joinedObj of None \<Rightarrow> VUndef | Some ob \<Rightarrow> VObj ob) entry)
         else (case (objGet entry defaultModelName, joinedObj) of
                 (VArr items, Some ob) \<Rightarrow>
                   if truthy (objGet ob ''id'')
                   then bindE (someIdEq items (objGet ob ''id'')) (\<lambda>found.
                          if found then Inr entry
                          else Inr (AList.update defaultModelName (VArr (items @ [VObj ob])) entry))
                   else Inr entry
               | _ \<Rightarrow> Inr entry))"









definition joinIsUnique :: "schema \<Rightarrow> (string \<Rightarrow> string) \<Rightarrow> string \<times> joinAttr \<Rightarrow> bool" where
  "joinIsUnique schema getDefaultModelName j =
     (case schemaFields schema (getDefaultModelName (fst j)) of
        None \<Rightarrow> False
      | Some flds \<Rightarrow> isUniqueField flds (j_to (snd j)))"















section \<open>The adapter factory\<close>

text \<open>
  The adapter factory (\<open>createAdapterFactory\<close> with its \<open>transformInput\<close>,
  \<open>transformOutput\<close> and identifier policy) is not among the source files; only its
  tests and the Kysely adapter that it wraps are. The definitions of this section follow
  the specification, sections 3, 4.1, 4.2, 4.3 and 4.6.
\<close>

text \<open>Modelled from the spec: the semantic type of a Field (section 3); the factory's
  schema types are missing.\<close>

datatype semType = TString | TNumber | TBoolean | TDate | TJson | TReference

text \<open>Modelled from the spec: a Field (section 3): logical name, semantic type, optional
  physical-name override, uniqueness flag, optional default value; the factory's schema
  types are missing.\<close>

record field =
  fd_name :: string
  fd_type :: semType
  fd_physical :: "string option"
  fd_unique :: bool
  fd_default :: "val option"

text \<open>Modelled from the spec: a Model (section 3): logical name, ordered fields, one
  designated identifier field; the factory's schema types are missing.\<close>

record model =
  md_name :: string
  md_fields :: "field list"
  md_id :: string

type_synonym registry = "model list"

text \<open>Modelled from the spec: the TransformContext handed to a custom hook (section 3):
  field name, model name, direction, raw value; the factory's types are missing.\<close>

datatype direction = Input | Output

text \<open>Modelled from the spec: the TransformContext record itself (section 3), with the
  direction above; the factory's types are missing.\<close>

record transformContext =
  tc_field :: string
  tc_model :: string
  tc_direction :: direction
  tc_value :: val

text \<open>Modelled from the spec: the AdapterConfig (section 3): capability flags, naming
  mode, identifier-generation policy with an optional custom generator, optional custom
  input and output transform hooks, optional key-remapping hooks (an empty mapping when
  not supplied); the factory's configuration type is missing. An input hook that returns no
  value leaves the field to the built-in coercion (section 4.2).\<close>

record adapterConfig =
  supportsBooleans :: bool
  supportsDates :: bool
  supportsJSON :: bool
  usePlural :: bool
  disableIdGeneration :: bool
  customIdGenerator :: "(string \<Rightarrow> string) option"
  customTransformInput :: "(transformContext \<Rightarrow> val option) option"
  customTransformOutput :: "(transformContext \<Rightarrow> val) option"
  mapKeysTransformInput :: "(string \<times> string) list"
  mapKeysTransformOutput :: "(string \<times> string) list"

text \<open>Modelled from the spec: what the factory takes from its host (sections 4.2 and
  4.3): the ISO-8601 text of a date and its reading back, the JSON text of a value and its
  parsing, the default identifier generator; the utilities are missing.\<close>

record platform =
  p_toISOString :: "int \<Rightarrow> string"
  p_parseDate :: "string \<Rightarrow> int option"
  p_stringify :: "val \<Rightarrow> string"
  p_parseJSON :: "string \<Rightarrow> val option"
  p_generateId :: "string \<Rightarrow> string"

text \<open>Modelled from the spec: the backend driver as the factory calls it (section 6):
  \<open>insert(physicalModel, values)\<close> returning the inserted row, and \<open>selectOne\<close> returning
  a row or none; the drivers are external.\<close>

record driver =
  drv_insert :: "string \<Rightarrow> obj \<Rightarrow> obj"
  drv_selectOne :: "string \<Rightarrow> whereClause list \<Rightarrow> obj option"

text \<open>Modelled from the spec: the error taxonomy of section 7, as far as the factory
  itself raises: a schema error for an unknown model or field, a transform error for a
  value that fails its coercion.\<close>

datatype factoryError = SchemaErr | TransformErr

text \<open>Sequencing of steps that may fail: the first error ends the operation.\<close>

definition bindF :: "factoryError + 'a \<Rightarrow> ('a \<Rightarrow> factoryError + 'b) \<Rightarrow> factoryError + 'b" where
  "bindF m f = (case m of Inl e \<Rightarrow> Inl e | Inr x \<Rightarrow> f x)"

fun mapF :: "('a \<Rightarrow> factoryError + 'b) \<Rightarrow> 'a list \<Rightarrow> factoryError + 'b list" where
  "mapF f [] = Inr []"
| "mapF f (x # xs) = bindF (f x) (\<lambda>y. bindF (mapF f xs) (\<lambda>ys. Inr (y # ys)))"

text \<open>Modelled from the spec: the Schema Registry and Name Resolver (section 4.1):
  lookup of a model and of a field by logical name, the physical field name (the
  override, else the logical name), the physical model name (with the plural suffix when
  the naming mode is plural); \<open>get-model-name\<close> and \<open>get-field-name\<close> are missing.\<close>

definition findModel :: "registry \<Rightarrow> string \<Rightarrow> model option" where
  "findModel reg name = find (\<lambda>m. md_name m = name) reg"

text \<open>Modelled from the spec: the lookup of a field of a model by its logical name
  (section 4.1); \<open>get-field-attributes\<close> is missing.\<close>

definition findField :: "model \<Rightarrow> string \<Rightarrow> field option" where
  "findField m name = find (\<lambda>f. fd_name f = name) (md_fields m)"

text \<open>Modelled from the spec: \<open>resolveFieldName\<close> (section 4.1): the explicit
  per-field override, else the logical name; \<open>get-field-name\<close> is missing.\<close>

definition physicalFieldName :: "field \<Rightarrow> string" where
  "physicalFieldName f = (case fd_physical f of None \<Rightarrow> fd_name f | Some p \<Rightarrow> p)"

text \<open>Modelled from the spec: \<open>resolveModelName\<close> (section 4.1): the logical name,
  with the plural suffix when the naming mode is plural; \<open>get-model-name\<close> is
  missing.\<close>

definition physicalModelName :: "adapterConfig \<Rightarrow> model \<Rightarrow> string" where
  "physicalModelName cfg m = (if usePlural cfg then md_name m @ ''s'' else md_name m)"

text \<open>Modelled from the spec: the built-in input coercion (section 4.2): a boolean
  becomes 1 or 0 without boolean support, a Date its ISO-8601 text without date support (a
  value that is no Date passes), a JSON-typed value its text without JSON support;
  \<open>transform-input\<close> is missing.\<close>

definition coerceIn :: "platform \<Rightarrow> adapterConfig \<Rightarrow> field \<Rightarrow> val \<Rightarrow> val" where
  "coerceIn pf cfg f v =
     (case fd_type f of
        TBoolean \<Rightarrow>
          (if supportsBooleans cfg then v
           else (case v of VBool b \<Rightarrow> VNum (if b then 1 else 0) | _ \<Rightarrow> v))
      | TDate \<Rightarrow>
          (if supportsDates cfg then v
           else (case v of VDate d \<Rightarrow> VStr (p_toISOString pf d) | _ \<Rightarrow> v))
      | TJson \<Rightarrow> (if supportsJSON cfg then v else VStr (p_stringify pf v))
      | _ \<Rightarrow> v)"

text \<open>Modelled from the spec: the input transform of one field (section 4.2): the custom
  input hook runs first and its value, if it returns one, is used as it is; otherwise the
  built-in coercion, which leaves the identifier alone; \<open>transform-input\<close> is missing.\<close>

definition inputValue :: "platform \<Rightarrow> adapterConfig \<Rightarrow> model \<Rightarrow> field \<Rightarrow> val \<Rightarrow> val" where
  "inputValue pf cfg m f v =
     (let builtin = (if fd_name f = md_id m then v else coerceIn pf cfg f v)
      in case customTransformInput cfg of
           None \<Rightarrow> builtin
         | Some hook \<Rightarrow>
             (case hook \<lparr>tc_field = fd_name f, tc_model = md_name m, tc_direction = Input,
                          tc_value = v\<rparr> of
                None \<Rightarrow> builtin
              | Some v' \<Rightarrow> v'))"

text \<open>Modelled from the spec: the key under which a field travels to the backend
  (sections 4.1 and 4.2): the key-remapping hook's transport key for the logical key if it
  has one, else the physical name; \<open>transform-input\<close> is missing.\<close>

definition transportKey :: "adapterConfig \<Rightarrow> field \<Rightarrow> string" where
  "transportKey cfg f =
     (case map_of (mapKeysTransformInput cfg) (fd_name f) of
        None \<Rightarrow> physicalFieldName f
      | Some t \<Rightarrow> t)"

text \<open>Modelled from the spec: the Input Transform Pipeline (section 4.2), field by field
  over the data; a key that is no field of the model is a schema error (section 4.1);
  \<open>transform-input\<close> is missing.\<close>

definition transformInput :: "platform \<Rightarrow> adapterConfig \<Rightarrow> model \<Rightarrow> obj \<Rightarrow> factoryError + obj" where
  "transformInput pf cfg m data =
     mapF (\<lambda>kv. case findField m (fst kv) of
                  None \<Rightarrow> Inl SchemaErr
                | Some f \<Rightarrow> Inr (transportKey cfg f, inputValue pf cfg m f (snd kv)))
          data"

text \<open>Modelled from the spec: the ID Policy (section 4.3): with generation disabled the
  input is left as it is; otherwise the generator (the caller's, else the default one) is
  invoked once with the model and its string is put into the input under the identifier
  field, before the input transform; \<open>id-field\<close> and the factory are missing.\<close>

definition idGenerator :: "platform \<Rightarrow> adapterConfig \<Rightarrow> string \<Rightarrow> string" where
  "idGenerator pf cfg = (case customIdGenerator cfg of None \<Rightarrow> p_generateId pf | Some g \<Rightarrow> g)"

text \<open>Modelled from the spec: the injection of the generated identifier into the input
  (section 4.3), skipped when generation is disabled; the factory is missing.\<close>

definition applyIdPolicy :: "platform \<Rightarrow> adapterConfig \<Rightarrow> model \<Rightarrow> obj \<Rightarrow> obj" where
  "applyIdPolicy pf cfg m data =
     (if disableIdGeneration cfg then data
      else AList.update (md_id m) (VStr (idGenerator pf cfg (md_name m))) data)"

text \<open>Modelled from the spec: the built-in output coercion (section 4.2), the inverse of
  the input coercion under the same flags: 1, 0 or any truthy value to a boolean, ISO text
  to a Date, text to parsed JSON; a text that does not parse is a transform error (section
  7); \<open>transform-output\<close> is missing.\<close>

definition coerceOut :: "platform \<Rightarrow> adapterConfig \<Rightarrow> field \<Rightarrow> val \<Rightarrow> factoryError + val" where
  "coerceOut pf cfg f v =
     (case fd_type f of
        TBoolean \<Rightarrow> Inr (if supportsBooleans cfg then v else VBool (truthy v))
      | TDate \<Rightarrow>
          (if supportsDates cfg then Inr v
           else (case v of
                   VStr s \<Rightarrow> (case p_parseDate pf s of None \<Rightarrow> Inl TransformErr | Some d \<Rightarrow> Inr (VDate d))
                 | _ \<Rightarrow> Inr v))
      | TJson \<Rightarrow>
          (if supportsJSON cfg then Inr v
           else (case v of
                   VStr s \<Rightarrow> (case p_parseJSON pf s of None \<Rightarrow> Inl TransformErr | Some j \<Rightarrow> Inr j)
                 | _ \<Rightarrow> Inr v))
      | _ \<Rightarrow> Inr v)"

text \<open>Modelled from the spec: key un-remapping (section 4.2): the value of a field in a
  row read back is the one under a transport key that the output key mapping renames to
  the field's logical name, if the row has such a key, else the one under the field's
  physical name; \<open>transform-output\<close> is missing.\<close>

definition outputSource :: "adapterConfig \<Rightarrow> field \<Rightarrow> obj \<Rightarrow> val option" where
  "outputSource cfg f row =
     (case find (\<lambda>kn. snd kn = fd_name f \<and> map_of row (fst kn) \<noteq> None) (mapKeysTransformOutput cfg) of
        Some kn \<Rightarrow> map_of row (fst kn)
      | None \<Rightarrow> map_of row (physicalFieldName f))"

text \<open>Modelled from the spec: the output transform of one field (section 4.2): the
  built-in coercion, which leaves the identifier alone, then the custom output hook; a
  field absent from the row gets the Field's default, or undefined;
  \<open>transform-output\<close> is missing.\<close>

definition outputValue :: "platform \<Rightarrow> adapterConfig \<Rightarrow> model \<Rightarrow> field \<Rightarrow> obj \<Rightarrow> factoryError + val" where
  "outputValue pf cfg m f row =
     (case outputSource cfg f row of
        None \<Rightarrow> Inr (case fd_default f of None \<Rightarrow> VUndef | Some d \<Rightarrow> d)
      | Some v \<Rightarrow>
          bindF (if fd_name f = md_id m then Inr v else coerceOut pf cfg f v) (\<lambda>v'.
            Inr (case customTransformOutput cfg of
                   None \<Rightarrow> v'
                 | Some hook \<Rightarrow>
                     hook \<lparr>tc_field = fd_name f, tc_model = md_name m, tc_direction = Output,
                           tc_value = v'\<rparr>)))"

text \<open>Modelled from the spec: the Output Transform Pipeline (section 4.2): every field
  of the model, in order, so that the record has the full logical shape;
  \<open>transform-output\<close> is missing.\<close>

definition transformOutput :: "platform \<Rightarrow> adapterConfig \<Rightarrow> model \<Rightarrow> obj \<Rightarrow> factoryError + obj" where
  "transformOutput pf cfg m row =
     mapF (\<lambda>f. bindF (outputValue pf cfg m f row) (\<lambda>v. Inr (fd_name f, v))) (md_fields m)"

text \<open>Modelled from the spec: the \<open>select\<close> projection, applied last (section 4.6): only
  the selected fields stay; a selected name that is no field of the model is a schema
  error (section 4.1); the factory is missing.\<close>

definition applySelect :: "model \<Rightarrow> string list option \<Rightarrow> obj \<Rightarrow> factoryError + obj" where
  "applySelect m select record =
     (case select of
        None \<Rightarrow> Inr record
      | Some names \<Rightarrow>
          if list_all (\<lambda>n. findField m n \<noteq> None) names
          then Inr (filter (\<lambda>kv. fst kv \<in> set names) record)
          else Inl SchemaErr)"

text \<open>Modelled from the spec: \<open>create\<close> (section 4.6) up to the call of the backend:
  the ID Policy, then the input transform; the result is the values handed to
  \<open>insert\<close>; the factory is missing.\<close>

definition createValues ::
  "platform \<Rightarrow> adapterConfig \<Rightarrow> registry \<Rightarrow> string \<Rightarrow> obj \<Rightarrow> factoryError + obj" where
  "createValues pf cfg reg modelName data =
     (case findModel reg modelName of
        None \<Rightarrow> Inl SchemaErr
      | Some m \<Rightarrow> transformInput pf cfg m (applyIdPolicy pf cfg m data))"

text \<open>Modelled from the spec: \<open>create(model, data, select?)\<close> (section 4.6): ID Policy,
  input transform, backend insert, output transform of the inserted row, \<open>select\<close>
  last; the factory is missing.\<close>

definition create ::
  "platform \<Rightarrow> adapterConfig \<Rightarrow> registry \<Rightarrow> driver \<Rightarrow> string \<Rightarrow> obj \<Rightarrow> string list option \<Rightarrow>
   factoryError + obj" where
  "create pf cfg reg drv modelName data select =
     (case findModel reg modelName of
        None \<Rightarrow> Inl SchemaErr
      | Some m \<Rightarrow>
          bindF (createValues pf cfg reg modelName data) (\<lambda>values.
            bindF (transformOutput pf cfg m (drv_insert drv (physicalModelName cfg m) values))
              (applySelect m select)))"

text \<open>Modelled from the spec: the Where list as the factory hands it to the backend
  (sections 4.1 and 4.4): the physical field name, the value through the built-in input
  coercion; \<open>transform-where\<close> is missing.\<close>

definition transformWhere ::
  "platform \<Rightarrow> adapterConfig \<Rightarrow> model \<Rightarrow> whereClause list \<Rightarrow> factoryError + whereClause list" where
  "transformWhere pf cfg m w =
     mapF (\<lambda>c. case findField m (w_field c) of
                 None \<Rightarrow> Inl SchemaErr
               | Some f \<Rightarrow>
                   Inr (c\<lparr>w_field := physicalFieldName f,
                          w_value := (if fd_name f = md_id m then w_value c
                                      else coerceIn pf cfg f (w_value c))\<rparr>))
          w"

text \<open>Modelled from the spec: \<open>findOne(model, where, select?)\<close> without a join (section
  4.6): the first row of the backend through the output transform and \<open>select\<close>, or
  none; the factory is missing.\<close>

definition findOne ::
  "platform \<Rightarrow> adapterConfig \<Rightarrow> registry \<Rightarrow> driver \<Rightarrow> string \<Rightarrow> whereClause list \<Rightarrow>
   string list option \<Rightarrow> factoryError + obj option" where
  "findOne pf cfg reg drv modelName w select =
     (case findModel reg modelName of
        None \<Rightarrow> Inl SchemaErr
      | Some m \<Rightarrow>
          bindF (transformWhere pf cfg m w) (\<lambda>w'.
            case drv_selectOne drv (physicalModelName cfg m) w' of
              None \<Rightarrow> Inr None
            | Some row \<Rightarrow>
                bindF (transformOutput pf cfg m row) (\<lambda>record.
                  bindF (applySelect m select record) (\<lambda>r. Inr (Some r)))))"

section \<open>Fixtures\<close>

text \<open>A small schema and a Where list, used to run the definitions on concrete inputs.\<close>

definition exampleSchema :: schema where
  "exampleSchema =
     [(''user'', \<lparr>m_modelName = ''user'', m_fields =
         [(''email'', \<lparr>f_type = ''string'', f_fieldName = None, f_unique = Some True\<rparr>),
          (''name'', \<lparr>f_type = ''string'', f_fieldName = None, f_unique = None\<rparr>),
          (''emailVerified'', \<lparr>f_type = ''boolean'', f_fieldName = None, f_unique = None\<rparr>)]\<rparr>),
      (''session'', \<lparr>m_modelName = ''session'', m_fields =
         [(''token'', \<lparr>f_type = ''string'', f_fieldName = None, f_unique = Some True\<rparr>),
          (''userId'', \<lparr>f_type = ''string'', f_fieldName = Some ''user_id'', f_unique = None\<rparr>)]\<rparr>)]"

definition exampleWhere :: "whereClause list" where
  "exampleWhere =
     [\<lparr>w_field = ''email'', w_value = VStr ''a@b.c'', w_operator = Some ''eq'', w_connector = None\<rparr>,
      \<lparr>w_field = ''name'', w_value = VStr ''bob'', w_operator = Some ''contains'',
       w_connector = Some ''OR''\<rparr>,
      \<lparr>w_field = ''id'', w_value = VStr ''u1'', w_operator = None, w_connector = Some ''AND''\<rparr>]"

definition plainFieldName :: "string \<Rightarrow> string \<Rightarrow> error + string" where
  "plainFieldName model field = Inr field"

definition plainModelName :: "string \<Rightarrow> string" where
  "plainModelName model = model"

definition noDateText :: "int \<Rightarrow> string" where
  "noDateText d = []"

definition sqliteConfig :: "kyselyConfig option" where
  "sqliteConfig = Some \<lparr>k_type = Some ''sqlite'', k_usePlural = None, k_transaction = None\<rparr>"

text \<open>
  A user joined with its sessions: two rows for user \<open>u1\<close> with sessions \<open>s1\<close> and
  \<open>s2\<close>, one row for user \<open>u2\<close> without a session (a left join), and the first row
  once more.
\<close>

definition exampleJoin :: joinConfig where
  "exampleJoin = [(''session'', \<lparr>j_type = ''left'', j_from = ''id'', j_to = ''userId''\<rparr>)]"




text \<open>
  The user model of the tests, a host whose generator returns a fixed identifier, the
  default configuration of the test adapter with \<open>supportsBooleans\<close> off, and a backend
  that returns the values it is handed, as the test adapter does.
\<close>

definition userModel :: model where
  "userModel =
     \<lparr>md_name = ''user'',
      md_fields =
        [\<lparr>fd_name = ''id'', fd_type = TString, fd_physical = None, fd_unique = True,
          fd_default = None\<rparr>,
         \<lparr>fd_name = ''name'', fd_type = TString, fd_physical = None, fd_unique = False,
          fd_default = None\<rparr>,
         \<lparr>fd_name = ''email'', fd_type = TString, fd_physical = Some ''email_address'',
          fd_unique = True, fd_default = None\<rparr>,
         \<lparr>fd_name = ''emailVerified'', fd_type = TBoolean, fd_physical = None, fd_unique = False,
          fd_default = Some (VBool False)\<rparr>],
      md_id = ''id''\<rparr>"

definition testPlatform :: platform where
  "testPlatform =
     \<lparr>p_toISOString = (\<lambda>d. ''1970-01-01T00:00:00.000Z''), p_parseDate = (\<lambda>s. Some 0),
      p_stringify = (\<lambda>v. ''null''), p_parseJSON = (\<lambda>s. Some VNull),
      p_generateId = (\<lambda>m. ''generated-id'')\<rparr>"

definition testConfig :: adapterConfig where
  "testConfig =
     \<lparr>supportsBooleans = False, supportsDates = True, supportsJSON = True, usePlural = False,
      disableIdGeneration = False, customIdGenerator = None, customTransformInput = None,
      customTransformOutput = None, mapKeysTransformInput = [], mapKeysTransformOutput = []\<rparr>"

definition echoDriver :: driver where
  "echoDriver = \<lparr>drv_insert = (\<lambda>model values. values), drv_selectOne = (\<lambda>model w. None)\<rparr>"

text \<open>
  A configuration with a custom input hook that answers \<open>"yes"\<close> for the field
  \<open>emailVerified\<close>; a configuration with identifier generation disabled; a backend that
  assigns the identifier itself, as a database with a generated key column does.
\<close>

definition hookConfig :: adapterConfig where
  "hookConfig =
     testConfig\<lparr>customTransformInput :=
       Some (\<lambda>ctx. if tc_field ctx = ''emailVerified'' then Some (VStr ''yes'') else None)\<rparr>"

definition noIdConfig :: adapterConfig where
  "noIdConfig = testConfig\<lparr>disableIdGeneration := True\<rparr>"

definition assigningDriver :: driver where
  "assigningDriver =
     \<lparr>drv_insert = (\<lambda>model values. AList.update ''id'' (VStr ''db-1'') values),
      drv_selectOne = (\<lambda>model w. None)\<rparr>"

definition flagDriver :: driver where
  "flagDriver =
     \<lparr>drv_insert = (\<lambda>model values. values),
      drv_selectOne = (\<lambda>model w. Some [(''id'', VStr ''u1''), (''emailVerified'', VNum 1)])\<rparr>"

section \<open>Properties of the Where compiler\<close>

lemma clauseConnector_OR: "(clauseConnector c = ''OR'') = (w_connector c = Some ''OR'')"
  by (simp add: clauseConnector_def split: option.splits)

lemma convertClauses_ok:
  "list_all2 (\<lambda>c e. compile c = Inr e) cs es \<Longrightarrow>
   convertClauses compile cs (a, b) = Inr (a @ andGroup cs es, b @ orGroup cs es)"
proof (induction cs arbitrary: es a b)
  case Nil
  then show ?case by (simp add: andGroup_def orGroup_def)
next
  case (Cons c cs)
  then obtain e es' where es: "es = e # es'" and c: "compile c = Inr e"
    and rest: "list_all2 (\<lambda>c e. compile c = Inr e) cs es'"
    by (auto simp: list_all2_Cons1)
  show ?case
    using Cons.IH [OF rest] c es
    by (simp add: andGroup_def orGroup_def clauseConnector_OR)
qed

lemma convertWhereClause_ok:
  assumes "list_all2 (\<lambda>c e. compileClause toISO dts config schema gfn model c = Inr e)
             (whereList w) es"
  shows "convertWhereClause toISO dts config schema gfn model w =
     Inr (if andGroup (whereList w) es \<noteq> [] then Some (andGroup (whereList w) es) else None,
          if orGroup (whereList w) es \<noteq> [] then Some (orGroup (whereList w) es) else None)"
proof (cases w)
  case None
  with assms have "es = []" by (simp add: whereList_def)
  with None show ?thesis by (simp add: convertWhereClause_def andGroup_def orGroup_def)
next
  case (Some cs)
  with assms have
    "list_all2 (\<lambda>c e. compileClause toISO dts config schema gfn model c = Inr e) cs es"
    by (simp add: whereList_def)
  from convertClauses_ok [OF this, of "[]" "[]"] Some show ?thesis
    by (simp add: convertWhereClause_def whereList_def)
qed

lemma matches_applyWhere:
  "matches cmp (applyWhere (a, b) q) row =
     (matches cmp q row
      \<and> (case a of None \<Rightarrow> True | Some ands \<Rightarrow> holds cmp row (EAnd ands))
      \<and> (case b of None \<Rightarrow> True | Some ors \<Rightarrow> holds cmp row (EOr ors)))"
  by (auto simp: matches_def applyWhere_def Let_def split: option.splits)

text \<open>
  Claim C3. When every clause of the Where list compiles (to the expressions \<open>es\<close>),
  \<open>convertWhereClause\<close> returns the expressions of the clauses whose connector is
  \<open>OR\<close> in one list and those of all other clauses in another, each \<open>null\<close> when it
  is empty. The query built from them keeps a row exactly when the row satisfies every
  expression of the AND list and some expression of the OR list if both lists have
  members, the one list that has members if only one has, and every row when neither has
  (an empty or absent Where list).
\<close>

theorem where_groups:
  assumes "list_all2 (\<lambda>c e. compileClause toISO dts config schema gfn model c = Inr e)
             (whereList w) es"
  shows "\<exists>conds. convertWhereClause toISO dts config schema gfn model w = Inr conds
     \<and> fst conds = (if andGroup (whereList w) es \<noteq> [] then Some (andGroup (whereList w) es)
                     else None)
     \<and> snd conds = (if orGroup (whereList w) es \<noteq> [] then Some (orGroup (whereList w) es)
                     else None)
     \<and> q_where (applyWhere conds (selectFrom model)) =
         (if andGroup (whereList w) es \<noteq> [] then [EAnd (andGroup (whereList w) es)] else []) @
         (if orGroup (whereList w) es \<noteq> [] then [EOr (orGroup (whereList w) es)] else [])
     \<and> matches cmp (applyWhere conds (selectFrom model)) row =
         (if andGroup (whereList w) es \<noteq> [] \<and> orGroup (whereList w) es \<noteq> []
          then list_all (holds cmp row) (andGroup (whereList w) es)
               \<and> list_ex (holds cmp row) (orGroup (whereList w) es)
          else if andGroup (whereList w) es \<noteq> []
          then list_all (holds cmp row) (andGroup (whereList w) es)
          else if orGroup (whereList w) es \<noteq> []
          then list_ex (holds cmp row) (orGroup (whereList w) es)
          else True)"
  using convertWhereClause_ok [OF assms]
  by (simp add: matches_applyWhere applyWhere_def selectFrom_def matches_def)

theorem where_groups_witness:
  "list_all2
     (\<lambda>c e. compileClause (\<lambda>d. []) (\<lambda>d. []) None exampleSchema plainFieldName ''user'' c = Inr e)
     (whereList (Some exampleWhere))
     [Cmp ''user.email'' ''='' (VStr ''a@b.c''), Cmp ''user.name'' ''like'' (VStr ''%bob%''),
      Cmp ''user.id'' ''='' (VStr ''u1'')]
   \<and> convertWhereClause (\<lambda>d. []) (\<lambda>d. []) None exampleSchema plainFieldName ''user''
         (Some exampleWhere) =
       Inr (Some [Cmp ''user.email'' ''='' (VStr ''a@b.c''), Cmp ''user.id'' ''='' (VStr ''u1'')],
            Some [Cmp ''user.name'' ''like'' (VStr ''%bob%'')])"
proof -
  have h: "list_all2
     (\<lambda>c e. compileClause (\<lambda>d. []) (\<lambda>d. []) None exampleSchema plainFieldName ''user'' c = Inr e)
     (whereList (Some exampleWhere))
     [Cmp ''user.email'' ''='' (VStr ''a@b.c''), Cmp ''user.name'' ''like'' (VStr ''%bob%''),
      Cmp ''user.id'' ''='' (VStr ''u1'')]"
    by code_simp
  have g: "andGroup (whereList (Some exampleWhere))
       [Cmp ''user.email'' ''='' (VStr ''a@b.c''), Cmp ''user.name'' ''like'' (VStr ''%bob%''),
        Cmp ''user.id'' ''='' (VStr ''u1'')] =
       [Cmp ''user.email'' ''='' (VStr ''a@b.c''), Cmp ''user.id'' ''='' (VStr ''u1'')]"
     "orGroup (whereList (Some exampleWhere))
       [Cmp ''user.email'' ''='' (VStr ''a@b.c''), Cmp ''user.name'' ''like'' (VStr ''%bob%''),
        Cmp ''user.id'' ''='' (VStr ''u1'')] = [Cmp ''user.name'' ''like'' (VStr ''%bob%'')]"
    by code_simp+
  from where_groups [OF h, of "\<lambda>_ _ _ _. True" "()"] obtain conds where
    "convertWhereClause (\<lambda>d. []) (\<lambda>d. []) None exampleSchema plainFieldName ''user''
       (Some exampleWhere) = Inr conds"
    "fst conds = Some [Cmp ''user.email'' ''='' (VStr ''a@b.c''), Cmp ''user.id'' ''='' (VStr ''u1'')]"
    "snd conds = Some [Cmp ''user.name'' ''like'' (VStr ''%bob%'')]"
    unfolding g by auto
  then show ?thesis using h by (cases conds) simp
qed

lemma toLowerCase_literals:
  "toLowerCase ''contains'' = ''contains''" "toLowerCase ''starts_with'' = ''starts_with''"
  "toLowerCase ''ends_with'' = ''ends_with''" "toLowerCase ''eq'' = ''eq''"
  "toLowerCase ''ne'' = ''ne''" "toLowerCase ''gt'' = ''gt''" "toLowerCase ''gte'' = ''gte''"
  "toLowerCase ''lt'' = ''lt''" "toLowerCase ''lte'' = ''lte''" "toLowerCase ''='' = ''=''"
  by code_simp+

text \<open>
  Claim C4. For a clause with an operator, whose field name resolves and whose value
  passes \<open>transformValueToDB\<close>, the compiled expression is: for \<open>in\<close> and \<open>not_in\<close>
  (in any letter case) the comparison \<open>in\<close> / \<open>not in\<close> against the value, wrapped into a
  one-element array unless it is an array; for \<open>contains\<close>, \<open>starts_with\<close> and
  \<open>ends_with\<close> a \<open>like\<close> against the value's text with \<open>%\<close> on both sides, after it,
  before it; for \<open>eq ne gt gte lt lte\<close> the comparisons \<open>= <> > >= < <=\<close>; and for any
  other operator the comparison with that operator, unchanged.
\<close>

theorem operator_semantics:
  assumes "getFieldName model (w_field c) = Inr field"
    and "transformValueToDB toISO config schema (w_value c) model (w_field c) = Inr value"
    and "w_operator c = Some op"
  shows "\<exists>e. compileClause toISO dts config schema getFieldName model c = Inr e
    \<and> (toLowerCase op = ''in'' \<longrightarrow>
         e = Cmp field ''in'' (if isArray value then value else VArr [value]))
    \<and> (toLowerCase op = ''not_in'' \<longrightarrow>
         e = Cmp field ''not in'' (if isArray value then value else VArr [value]))
    \<and> (op = ''contains'' \<longrightarrow>
         e = Cmp (model @ ''.'' @ field) ''like'' (VStr (''%'' @ toStringJS dts value @ ''%'')))
    \<and> (op = ''starts_with'' \<longrightarrow>
         e = Cmp (model @ ''.'' @ field) ''like'' (VStr (toStringJS dts value @ ''%'')))
    \<and> (op = ''ends_with'' \<longrightarrow>
         e = Cmp (model @ ''.'' @ field) ''like'' (VStr (''%'' @ toStringJS dts value)))
    \<and> (op = ''eq'' \<longrightarrow> e = Cmp (model @ ''.'' @ field) ''='' value)
    \<and> (op = ''ne'' \<longrightarrow> e = Cmp (model @ ''.'' @ field) ''<>'' value)
    \<and> (op = ''gt'' \<longrightarrow> e = Cmp (model @ ''.'' @ field) ''>'' value)
    \<and> (op = ''gte'' \<longrightarrow> e = Cmp (model @ ''.'' @ field) ''>='' value)
    \<and> (op = ''lt'' \<longrightarrow> e = Cmp (model @ ''.'' @ field) ''<'' value)
    \<and> (op = ''lte'' \<longrightarrow> e = Cmp (model @ ''.'' @ field) ''<='' value)
    \<and> (toLowerCase op \<noteq> ''in'' \<and> toLowerCase op \<noteq> ''not_in''
         \<and> op \<notin> set [''contains'', ''starts_with'', ''ends_with'', ''eq'', ''ne'', ''gt'',
                        ''gte'', ''lt'', ''lte'']
         \<longrightarrow> e = Cmp (model @ ''.'' @ field) op value)"
proof -
  have c: "compileClause toISO dts config schema getFieldName model c =
             Inr (whereExpr dts model field op value)"
    using assms by (simp add: compileClause_def)
  show ?thesis
    unfolding c by (auto simp: whereExpr_def toLowerCase_literals)
qed

theorem operator_semantics_witness:
  "compileClause (\<lambda>d. []) (\<lambda>d. []) None exampleSchema plainFieldName ''user''
      \<lparr>w_field = ''name'', w_value = VStr ''bob'', w_operator = Some ''IN'', w_connector = None\<rparr>
     = Inr (Cmp ''name'' ''in'' (VArr [VStr ''bob'']))
   \<and> compileClause (\<lambda>d. []) (\<lambda>d. []) None exampleSchema plainFieldName ''user''
      \<lparr>w_field = ''name'', w_value = VArr [VStr ''a'', VStr ''b''], w_operator = Some ''not_in'', w_connector = None\<rparr>
     = Inr (Cmp ''name'' ''not in'' (VArr [VStr ''a'', VStr ''b'']))
   \<and> compileClause (\<lambda>d. []) (\<lambda>d. []) None exampleSchema plainFieldName ''user''
      \<lparr>w_field = ''name'', w_value = VStr ''bob'', w_operator = Some ''starts_with'', w_connector = None\<rparr>
     = Inr (Cmp ''user.name'' ''like'' (VStr ''bob%''))
   \<and> compileClause (\<lambda>d. []) (\<lambda>d. []) None exampleSchema plainFieldName ''user''
      \<lparr>w_field = ''emailVerified'', w_value = VBool True, w_operator = Some ''ne'', w_connector = None\<rparr>
     = Inr (Cmp ''user.emailVerified'' ''<>'' (VNum 1))
   \<and> compileClause (\<lambda>d. []) (\<lambda>d. []) None exampleSchema plainFieldName ''user''
      \<lparr>w_field = ''name'', w_value = VStr ''b_b'', w_operator = Some ''ilike'', w_connector = None\<rparr>
     = Inr (Cmp ''user.name'' ''ilike'' (VStr ''b_b''))"
proof -
  have f: "\<And>f. plainFieldName ''user'' f = Inr f" by (simp add: plainFieldName_def)
  have v1: "transformValueToDB (\<lambda>d. []) None exampleSchema (VStr ''bob'') ''user'' ''name'' = Inr (VStr ''bob'')"
    by code_simp
  have v2: "transformValueToDB (\<lambda>d. []) None exampleSchema (VArr [VStr ''a'', VStr ''b'']) ''user'' ''name'' = Inr (VArr [VStr ''a'', VStr ''b''])"
    by code_simp
  have v3: "transformValueToDB (\<lambda>d. []) None exampleSchema (VBool True) ''user'' ''emailVerified'' = Inr (VNum 1)"
    by code_simp
  have v4: "transformValueToDB (\<lambda>d. []) None exampleSchema (VStr ''b_b'') ''user'' ''name'' = Inr (VStr ''b_b'')"
    by code_simp
  have l: "toLowerCase ''IN'' = ''in''" "toLowerCase ''not_in'' = ''not_in''"
    "toLowerCase ''ilike'' = ''ilike''" by code_simp+
  note t = operator_semantics [where getFieldName = plainFieldName and model = "''user''"
      and toISO = "\<lambda>d. []" and dts = "\<lambda>d. []" and config = None and schema = exampleSchema]
  show ?thesis
    using t [of "\<lparr>w_field = ''name'', w_value = VStr ''bob'', w_operator = Some ''IN'', w_connector = None\<rparr>" "''name''" "VStr ''bob''" "''IN''"]
      t [of "\<lparr>w_field = ''name'', w_value = VArr [VStr ''a'', VStr ''b''], w_operator = Some ''not_in'', w_connector = None\<rparr>" "''name''" "VArr [VStr ''a'', VStr ''b'']" "''not_in''"]
      t [of "\<lparr>w_field = ''name'', w_value = VStr ''bob'', w_operator = Some ''starts_with'', w_connector = None\<rparr>" "''name''" "VStr ''bob''" "''starts_with''"]
      t [of "\<lparr>w_field = ''emailVerified'', w_value = VBool True, w_operator = Some ''ne'', w_connector = None\<rparr>" "''emailVerified''" "VNum 1" "''ne''"]
      t [of "\<lparr>w_field = ''name'', w_value = VStr ''b_b'', w_operator = Some ''ilike'', w_connector = None\<rparr>" "''name''" "VStr ''b_b''" "''ilike''"]
    by (simp add: f v1 v2 v3 v4 l)
qed

text \<open>
  Claim C10. For a clause whose field name resolves and whose value passes
  \<open>transformValueToDB\<close>: when the operator is omitted, the compiled expression is the
  equality comparison \<open>=\<close> on the resolved field, the same as for \<open>eq\<close>; when the
  connector is omitted, the clause is treated as one with connector \<open>AND\<close> and its
  expression goes to the AND list.
\<close>

theorem default_operator_connector:
  assumes "getFieldName model (w_field c) = Inr field"
    and "transformValueToDB toISO config schema (w_value c) model (w_field c) = Inr value"
  shows "(w_operator c = None \<longrightarrow>
            compileClause toISO dts config schema getFieldName model c =
              Inr (Cmp (model @ ''.'' @ field) ''='' value)
          \<and> compileClause toISO dts config schema getFieldName model c =
              compileClause toISO dts config schema getFieldName model (c\<lparr>w_operator := Some ''eq''\<rparr>))
       \<and> (w_connector c = None \<longrightarrow>
            clauseConnector c = ''AND''
          \<and> convertWhereClause toISO dts config schema getFieldName model (Some [c]) =
              convertWhereClause toISO dts config schema getFieldName model
                (Some [c\<lparr>w_connector := Some ''AND''\<rparr>])
          \<and> (\<exists>e. compileClause toISO dts config schema getFieldName model c = Inr e
               \<and> convertWhereClause toISO dts config schema getFieldName model (Some [c]) =
                   Inr (Some [e], None)))"
proof -
  let ?compile = "compileClause toISO dts config schema getFieldName model"
  let ?op = "case w_operator c of None \<Rightarrow> ''='' | Some op \<Rightarrow> op"
  have c: "?compile c = Inr (whereExpr dts model field ?op value)"
    using assms by (simp add: compileClause_def)
  have c_eq: "?compile (c\<lparr>w_operator := Some ''eq''\<rparr>) = Inr (whereExpr dts model field ''eq'' value)"
    using assms by (simp add: compileClause_def)
  have c_and: "?compile (c\<lparr>w_connector := Some ''AND''\<rparr>) = ?compile c"
    by (simp add: compileClause_def cong: sum.case_cong)
  have e1: "whereExpr dts model field ''='' value = Cmp (model @ ''.'' @ field) ''='' value"
    by (simp add: whereExpr_def toLowerCase_literals)
  have e2: "whereExpr dts model field ''eq'' value = Cmp (model @ ''.'' @ field) ''='' value"
    by (simp add: whereExpr_def toLowerCase_literals)
  have op: "w_operator c = None \<longrightarrow>
      ?compile c = Inr (Cmp (model @ ''.'' @ field) ''='' value)
      \<and> ?compile c = ?compile (c\<lparr>w_operator := Some ''eq''\<rparr>)"
    using c c_eq e1 e2 by simp
  have conn: "w_connector c = None \<longrightarrow>
      clauseConnector c = ''AND''
      \<and> convertWhereClause toISO dts config schema getFieldName model (Some [c]) =
          convertWhereClause toISO dts config schema getFieldName model
            (Some [c\<lparr>w_connector := Some ''AND''\<rparr>])
      \<and> (\<exists>e. ?compile c = Inr e
           \<and> convertWhereClause toISO dts config schema getFieldName model (Some [c]) =
               Inr (Some [e], None))"
    using c c_and by (simp add: convertWhereClause_def clauseConnector_def)
  from op conn show ?thesis by blast
qed

theorem default_operator_connector_witness:
  "w_operator \<lparr>w_field = ''id'', w_value = VStr ''u1'', w_operator = None, w_connector = None\<rparr> = None
   \<and> w_connector \<lparr>w_field = ''id'', w_value = VStr ''u1'', w_operator = None, w_connector = None\<rparr> = None
   \<and> convertWhereClause (\<lambda>d. []) (\<lambda>d. []) None exampleSchema plainFieldName ''user''
        (Some [\<lparr>w_field = ''id'', w_value = VStr ''u1'', w_operator = None, w_connector = None\<rparr>]) =
      Inr (Some [Cmp ''user.id'' ''='' (VStr ''u1'')], None)"
proof -
  let ?c = "\<lparr>w_field = ''id'', w_value = VStr ''u1'', w_operator = None, w_connector = None\<rparr>"
  have h1: "plainFieldName ''user'' (w_field ?c) = Inr ''id''"
    by (simp add: plainFieldName_def)
  have h2: "transformValueToDB (\<lambda>d. []) None exampleSchema (w_value ?c) ''user'' (w_field ?c) =
              Inr (VStr ''u1'')"
    by (simp add: transformValueToDB_def)
  from default_operator_connector [where getFieldName = plainFieldName and model = "''user''"
      and c = ?c and dts = "\<lambda>d. []", OF h1 h2]
  show ?thesis by auto
qed

section \<open>Properties of findMany\<close>

lemma addJoins_orderBy [simp]: "q_orderBy (addJoins model j q) = q_orderBy q"
  unfolding addJoins_def by (induction j arbitrary: q) (auto split: prod.splits)

lemma applyWhere_orderBy [simp]: "q_orderBy (applyWhere conds q) = q_orderBy q"
  by (simp add: applyWhere_def Let_def split: option.splits)

text \<open>
  Claim C7, as amended. For a \<open>findMany\<close> call without \<open>sortBy\<close>, whose Where list
  compiles and whose \<open>id\<close> field name resolves, on a query that has no ordering yet: the
  query is ordered by the identifier field exactly when the database type is \<open>mssql\<close>
  and the offset is given and not zero; for every other database type, and for an offset
  of zero, the query has no ordering.
\<close>

theorem findMany_offset_orderBy:
  assumes "convertWhereClause toISO dts config schema getFieldName model w = Inr conds"
    and "getFieldName model ''id'' = Inr idField"
    and "q_orderBy start = []"
  shows "\<exists>q. findManyQuery toISO dts config schema getFieldName model w limit offset None join start
            = Inr q
     \<and> q_orderBy q =
         (if given offset \<and> cfgType config = Some ''mssql'' then [(idField, None)] else [])"
  using assms
  by (cases join) (simp_all add: findManyQuery_def bindE_def Let_def)

theorem findMany_offset_orderBy_witness:
  "convertWhereClause (\<lambda>d. []) (\<lambda>d. [])
      (Some \<lparr>k_type = Some ''mssql'', k_usePlural = None, k_transaction = None\<rparr>)
      exampleSchema plainFieldName ''user'' None = Inr (None, None)
   \<and> plainFieldName ''user'' ''id'' = Inr ''id''
   \<and> q_orderBy (selectFrom ''user'') = []
   \<and> findManyQuery (\<lambda>d. []) (\<lambda>d. [])
        (Some \<lparr>k_type = Some ''mssql'', k_usePlural = None, k_transaction = None\<rparr>)
        exampleSchema plainFieldName ''user'' None (Some 10) (Some 5) None None (selectFrom ''user'')
      = Inr \<lparr>q_from = ''user'', q_selectAll = None, q_where = [], q_joins = [], q_top = None,
          q_limit = None, q_orderBy = [(''id'', None)], q_offset = Some 5, q_fetch = Some 10,
          q_select = []\<rparr>"
proof -
  let ?config = "Some \<lparr>k_type = Some ''mssql'', k_usePlural = None, k_transaction = None\<rparr>"
  have h1: "convertWhereClause (\<lambda>d. []) (\<lambda>d. []) ?config exampleSchema plainFieldName ''user'' None
              = Inr (None, None)"
    by (simp add: convertWhereClause_def)
  have h2: "plainFieldName ''user'' ''id'' = Inr ''id''" by (simp add: plainFieldName_def)
  have h3: "q_orderBy (selectFrom ''user'') = []" by (simp add: selectFrom_def)
  have r: "findManyQuery (\<lambda>d. []) (\<lambda>d. []) ?config exampleSchema plainFieldName ''user'' None
        (Some 10) (Some 5) None None (selectFrom ''user'')
      = Inr \<lparr>q_from = ''user'', q_selectAll = None, q_where = [], q_joins = [], q_top = None,
          q_limit = None, q_orderBy = [(''id'', None)], q_offset = Some 5, q_fetch = Some 10,
          q_select = []\<rparr>"
    by code_simp
  from findMany_offset_orderBy [where getFieldName = plainFieldName and model = "''user''"
      and toISO = "\<lambda>d. []" and dts = "\<lambda>d. []" and config = ?config and schema = exampleSchema
      and w = None and start = "selectFrom ''user''" and limit = "Some 10" and offset = "Some 5"
      and join = None, OF h1 h2 h3]
  obtain q where "findManyQuery (\<lambda>d. []) (\<lambda>d. []) ?config exampleSchema plainFieldName ''user'' None
        (Some 10) (Some 5) None None (selectFrom ''user'') = Inr q"
    "q_orderBy q = [(''id'', None)]"
    by (auto simp: given_def cfgType_def)
  with h1 h2 h3 r show ?thesis by simp
qed

theorem findMany_offset_counterexample:
  "findManyQuery noDateText noDateText sqliteConfig exampleSchema plainFieldName ''user'' None
      (Some 10) (Some 5) None None (selectFrom ''user'')
   = Inr \<lparr>q_from = ''user'', q_selectAll = None, q_where = [], q_joins = [], q_top = None,
      q_limit = Some 10, q_orderBy = [], q_offset = Some 5, q_fetch = None, q_select = []\<rparr>"
  by code_simp

section \<open>Properties of the value transforms\<close>

lemma transformObject_id: "transformObject config v = v"
  by (induction config v rule: transformObject.induct) (auto simp: map_idI)

text \<open>
  Claim C8. In the Kysely adapter, a value of the field \<open>id\<close> is returned unchanged by
  \<open>transformValueToDB\<close>, for every value, model, schema and database type; and
  \<open>transformValueFromDB\<close> returns every value read from the database unchanged, the
  identifier included.
\<close>

theorem identifier_passthrough:
  "transformValueToDB toISO config schema v model ''id'' = Inr v
   \<and> transformValueFromDB config v = v"
  by (cases v) (auto simp: transformValueToDB_def transformValueFromDB_def transformObject_id map_idI)

section \<open>Properties of the join select list\<close>

lemma withIdField_idem: "withIdField (withIdField fs) = withIdField fs"
  by (simp add: withIdField_def)

lemma map_of_setFields:
  "map_of (setFields S d fs) d' =
     (if d' = d then map_option (\<lambda>m. m\<lparr>m_fields := fs\<rparr>) (map_of S d) else map_of S d')"
  unfolding setFields_def by (induction S) auto

lemma schemaFields_setFields:
  "schemaFields (setFields S d fs) d' =
     (if d' = d \<and> schemaFields S d \<noteq> None then Some fs else schemaFields S d')"
  by (auto simp: schemaFields_def map_of_setFields)

lemma sameFields_Some:
  "sameFields S schema \<Longrightarrow> schemaFields S d = Some f0 \<Longrightarrow>
   \<exists>f1. schemaFields schema d = Some f1 \<and> withIdField f1 = withIdField f0"
  by (metis map_option_eq_Some)

lemma sameFields_None:
  "sameFields S schema \<Longrightarrow> schemaFields S d = None \<Longrightarrow> schemaFields schema d = None"
  by (metis option.map_disc_iff)

lemma sameFields_setFields:
  "sameFields S schema \<Longrightarrow> schemaFields S d = Some f0 \<Longrightarrow>
   sameFields (setFields S d (withIdField f0)) schema"
  by (auto simp: schemaFields_setFields withIdField_idem) (metis option.simps(9))

lemma sameFields_refl: "sameFields schema schema"
  by simp

lemma joinSelects_fold:
  assumes "sameFields S schema"
  shows "\<exists>S'. fold (\<lambda>(joinModel, _) (schema, allSelects, allSelectsStr).
             case schemaFields schema (g joinModel) of
               None \<Rightarrow> (schema, allSelects, allSelectsStr)
             | Some fields0 \<Rightarrow>
                 let fields = withIdField fields0
                 in (setFields schema (g joinModel) fields,
                     allSelects @ map (sel joinModel) fields,
                     allSelectsStr @ map (str joinModel) fields))
          join (S, A, B) =
        (S', A @ concat (map (\<lambda>(jm, _). map (sel jm) (joinFields schema g jm)) join),
             B @ concat (map (\<lambda>(jm, _). map (str jm) (joinFields schema g jm)) join))"
  using assms
proof (induction join arbitrary: S A B)
  case Nil
  then show ?case by simp
next
  case (Cons j join)
  obtain jm a where j: "j = (jm, a)" by (cases j)
  show ?case
  proof (cases "schemaFields S (g jm)")
    case None
    from Cons.IH [OF Cons.prems, of A B] sameFields_None [OF Cons.prems None]
    show ?thesis by (simp add: j None joinFields_def)
  next
    case (Some f0)
    from sameFields_Some [OF Cons.prems Some]
    have "joinFields schema g jm = withIdField f0" by (auto simp: joinFields_def)
    with Cons.IH [OF sameFields_setFields [OF Cons.prems Some],
        of "A @ map (sel jm) (withIdField f0)" "B @ map (str jm) (withIdField f0)"]
    show ?thesis by (simp add: j Some Let_def)
  qed
qed

lemma requested_map:
  "concat (map (\<lambda>(jm, _). map (\<lambda>(field, fieldAttr). h jm (physicalName fieldAttr field))
                               (joinFields schema g jm)) join)
   = map (\<lambda>(jm, c). h jm c) (requestedColumns schema g join)"
  unfolding requestedColumns_def
  by (induction join) (auto simp: case_prod_unfold)

lemma joinSelects_kw_eq:
  "snd (joinSelects_kw g join schema) =
     (map (\<lambda>(jm, c). (jm, c, ''joined_'' @ jm @ ''_'' @ c)) (requestedColumns schema g join),
      map (\<lambda>(jm, c). ''joined_'' @ jm @ ''_'' @ c) (requestedColumns schema g join))"
proof -
  from joinSelects_fold [OF sameFields_refl, where A = "[]" and B = "[]" and g = g and join = join
      and sel = "\<lambda>jm (field, fieldAttr). (jm, physicalName fieldAttr field,
                               ''joined_'' @ jm @ ''_'' @ physicalName fieldAttr field)"
      and str = "\<lambda>jm (field, fieldAttr). ''joined_'' @ jm @ ''_'' @ physicalName fieldAttr field"]
  obtain S' where "joinSelects_kw g join schema =
     (S', concat (map (\<lambda>(jm, _). map (\<lambda>(field, fieldAttr). (jm, physicalName fieldAttr field,
                               ''joined_'' @ jm @ ''_'' @ physicalName fieldAttr field)) (joinFields schema g jm)) join),
          concat (map (\<lambda>(jm, _). map (\<lambda>(field, fieldAttr).
                               ''joined_'' @ jm @ ''_'' @ physicalName fieldAttr field) (joinFields schema g jm)) join))"
    unfolding joinSelects_kw_def by auto
  then show ?thesis
    using requested_map [of "\<lambda>jm c. (jm, c, ''joined_'' @ jm @ ''_'' @ c)" schema g join]
      requested_map [of "\<lambda>jm c. ''joined_'' @ jm @ ''_'' @ c" schema g join]
    by simp
qed

lemma joinSelects_head_eq:
  "snd (joinSelects_head g join schema) =
     (map (\<lambda>(jm, c). (jm, c, ''_joined_'' @ jm @ ''_'' @ c)) (requestedColumns schema g join),
      requestedColumns schema g join)"
proof -
  from joinSelects_fold [OF sameFields_refl, where A = "[]" and B = "[]" and g = g and join = join
      and sel = "\<lambda>jm (field, fieldAttr). (jm, physicalName fieldAttr field,
                               ''_joined_'' @ jm @ ''_'' @ physicalName fieldAttr field)"
      and str = "\<lambda>jm (field, fieldAttr). (jm, physicalName fieldAttr field)"]
  obtain S' where "joinSelects_head g join schema =
     (S', concat (map (\<lambda>(jm, _). map (\<lambda>(field, fieldAttr). (jm, physicalName fieldAttr field,
                               ''_joined_'' @ jm @ ''_'' @ physicalName fieldAttr field)) (joinFields schema g jm)) join),
          concat (map (\<lambda>(jm, _). map (\<lambda>(field, fieldAttr).
                               (jm, physicalName fieldAttr field)) (joinFields schema g jm)) join))"
    unfolding joinSelects_head_def by auto
  then show ?thesis
    using requested_map [of "\<lambda>jm c. (jm, c, ''_joined_'' @ jm @ ''_'' @ c)" schema g join]
      requested_map [of "\<lambda>jm c. (jm, c)" schema g join]
    by simp
qed

lemma isJoinedKey_kw_iff: "isJoinedKey_kw strs key = (key \<in> set strs)"
  unfolding isJoinedKey_kw_def find_None_iff by blast

lemma isJoinedKey_head_iff:
  "isJoinedKey_head cols key =
     (key \<in> set (map (\<lambda>(jm, c). ''_joined_'' @ jm @ ''_'' @ c) cols))"
  unfolding isJoinedKey_head_def find_None_iff by force

text \<open>
  Claim C9, as amended. Every field of every joined model that the schema knows, with the
  \<open>id\<close> field added, is selected under its physical name with the alias
  \<open>joined_<model>_<field>\<close> on the one side of the unresolved merge and
  \<open>_joined_<model>_<field>\<close> on the other (\<open>HEAD\<close>); on each side the post-processor
  takes a column for a joined one exactly when its key is one of the requested aliases of
  that side.
\<close>

theorem join_aliases:
  "fst (snd (joinSelects_kw g join schema)) =
     map (\<lambda>(jm, c). (jm, c, ''joined_'' @ jm @ ''_'' @ c)) (requestedColumns schema g join)
   \<and> snd (snd (joinSelects_kw g join schema)) =
     map (\<lambda>(jm, c). ''joined_'' @ jm @ ''_'' @ c) (requestedColumns schema g join)
   \<and> isJoinedKey_kw (snd (snd (joinSelects_kw g join schema))) key =
     (key \<in> set (map (\<lambda>(jm, c). ''joined_'' @ jm @ ''_'' @ c) (requestedColumns schema g join)))
   \<and> fst (snd (joinSelects_head g join schema)) =
     map (\<lambda>(jm, c). (jm, c, ''_joined_'' @ jm @ ''_'' @ c)) (requestedColumns schema g join)
   \<and> snd (snd (joinSelects_head g join schema)) = requestedColumns schema g join
   \<and> isJoinedKey_head (snd (snd (joinSelects_head g join schema))) key =
     (key \<in> set (map (\<lambda>(jm, c). ''_joined_'' @ jm @ ''_'' @ c) (requestedColumns schema g join)))"
  by (simp add: joinSelects_kw_eq joinSelects_head_eq isJoinedKey_kw_iff isJoinedKey_head_iff)

theorem join_aliases_counterexample:
  "fst (snd (joinSelects_head plainModelName exampleJoin exampleSchema)) =
     [(''session'', ''token'', ''_joined_session_token''),
      (''session'', ''user_id'', ''_joined_session_user_id''),
      (''session'', ''id'', ''_joined_session_id'')]
   \<and> isJoinedKey_head (snd (snd (joinSelects_head plainModelName exampleJoin exampleSchema)))
         ''joined_session_token'' = False"
  by code_simp

section \<open>Properties of processJoinedResults\<close>








lemma addJoined_many:
  "\<not> joinIsUnique S g j \<Longrightarrow>
   addJoined S g jmf j e =
     (case (objGet e (g (fst j)), map_of jmf (fst j)) of
        (VArr items, Some ob) \<Rightarrow>
           if truthy (objGet ob ''id'')
           then bindE (someIdEq items (objGet ob ''id'')) (\<lambda>found.
                  if found then Inr e
                  else Inr (AList.update (g (fst j)) (VArr (items @ [VObj ob])) e))
           else Inr e
      | _ \<Rightarrow> Inr e)"
  by (simp add: addJoined_def joinIsUnique_def Let_def)


































lemma addJoined_no_id:
  assumes "\<not> joinIsUnique S g j" and "map_of jmf (fst j) = Some ob"
    and "\<not> truthy (objGet ob ''id'')"
  shows "addJoined S g jmf j e = Inr e"
  using assms by (simp add: addJoined_many split: val.splits)


















section \<open>Properties of the adapter factory\<close>

lemma mapF_Inr:
  "mapF f xs = Inr ys \<Longrightarrow> list_all2 (\<lambda>x y. f x = Inr y) xs ys"
proof (induction xs arbitrary: ys)
  case Nil
  then show ?case by simp
next
  case (Cons x xs)
  then show ?case
    by (auto simp: bindF_def split: sum.splits)
qed

lemma mapF_mem:
  assumes "mapF f xs = Inr ys" and "x \<in> set xs"
  shows "\<exists>y\<in>set ys. f x = Inr y"
  using mapF_Inr [OF assms(1)] assms(2)
  by (auto simp: list_all2_conv_all_nth in_set_conv_nth)

lemma mapF_mem_rev:
  "mapF f xs = Inr ys \<Longrightarrow> y \<in> set ys \<Longrightarrow> \<exists>x\<in>set xs. f x = Inr y"
  by (induction xs arbitrary: ys) (auto simp: bindF_def split: sum.splits)

lemma findField_Some: "findField m n = Some f \<Longrightarrow> f \<in> set (md_fields m) \<and> fd_name f = n"
  unfolding findField_def by (auto simp: find_Some_iff)

lemma findField_None_iff: "(findField m n \<noteq> None) = (n \<in> fd_name ` set (md_fields m))"
  unfolding findField_def find_None_iff by auto

lemma mapF_keys:
  "mapF (\<lambda>f. bindF (g f) (\<lambda>v. Inr (h f, v))) xs = Inr ys \<Longrightarrow> map fst ys = map h xs"
  by (induction xs arbitrary: ys) (auto simp: bindF_def split: sum.splits)

lemma transformOutput_keys:
  "transformOutput pf cfg m row = Inr rcd \<Longrightarrow> map fst rcd = map fd_name (md_fields m)"
  unfolding transformOutput_def by (rule mapF_keys)

lemma transformOutput_entry:
  assumes "transformOutput pf cfg m row = Inr rcd" and "f \<in> set (md_fields m)"
  shows "\<exists>v. outputValue pf cfg m f row = Inr v \<and> (fd_name f, v) \<in> set rcd"
  using mapF_mem [OF assms(1) [unfolded transformOutput_def] assms(2)]
  by (auto simp: bindF_def split: sum.splits)

lemma applySelect_keys:
  assumes "applySelect m (Some names) rcd = Inr r"
    and "map fst rcd = map fd_name (md_fields m)"
  shows "set (map fst r) = set names"
proof -
  from assms(1) have ok: "list_all (\<lambda>n. findField m n \<noteq> None) names"
    and r: "r = filter (\<lambda>kv. fst kv \<in> set names) rcd"
    by (auto simp: applySelect_def split: if_splits)
  from ok have "set names \<subseteq> set (map fst rcd)"
    unfolding assms(2) by (auto simp: list_all_iff dest!: findField_Some)
  with r show ?thesis by force
qed

lemma applySelect_mem:
  assumes "applySelect m select rcd = Inr r" and "(k, v) \<in> set rcd"
    and "select = None \<or> (\<exists>names. select = Some names \<and> k \<in> set names)"
  shows "(k, v) \<in> set r"
  using assms by (auto simp: applySelect_def split: option.splits if_splits)


lemma update_mem_other:
  "(k, v) \<in> set al \<Longrightarrow> k \<noteq> k' \<Longrightarrow> (k, v) \<in> set (AList.update k' v' al)"
  by (induction al) auto

lemma update_mem_same: "(k, v) \<in> set (AList.update k v al)"
  by (induction al) auto

lemma create_unfold:
  assumes "findModel reg mn = Some m" and "create pf cfg reg drv mn data select = Inr r"
  shows "\<exists>values rcd. createValues pf cfg reg mn data = Inr values
     \<and> transformOutput pf cfg m (drv_insert drv (physicalModelName cfg m) values) = Inr rcd
     \<and> applySelect m select rcd = Inr r"
  using assms by (auto simp: create_def bindF_def split: sum.splits)

lemma findOne_unfold:
  assumes "findModel reg mn = Some m" and "findOne pf cfg reg drv mn w select = Inr (Some r)"
  shows "\<exists>w' row rcd. transformWhere pf cfg m w = Inr w'
     \<and> drv_selectOne drv (physicalModelName cfg m) w' = Some row
     \<and> transformOutput pf cfg m row = Inr rcd
     \<and> applySelect m select rcd = Inr r"
  using assms by (auto simp: findOne_def bindF_def split: sum.splits option.splits)

text \<open>
  Claim C6. For a model of the registry and any two names \<open>f1\<close>, \<open>f2\<close>: a record
  returned by \<open>create\<close> or \<open>findOne\<close> with \<open>select: [f1, f2]\<close> has exactly the keys
  \<open>f1\<close> and \<open>f2\<close>, where without \<open>select\<close> a record has every field of the model;
  and when both names are fields of the model, \<open>create\<close> with the selection returns the
  projection of what it returns without, so it returns a record whenever the unselected
  call does.
\<close>

theorem select_keys:
  assumes "findModel reg mn = Some m"
  shows "(create pf cfg reg drv mn data (Some [f1, f2]) = Inr r \<longrightarrow> set (map fst r) = {f1, f2})
     \<and> (findOne pf cfg reg drv mn w (Some [f1, f2]) = Inr (Some r) \<longrightarrow> set (map fst r) = {f1, f2})
     \<and> (create pf cfg reg drv mn data None = Inr r \<longrightarrow> map fst r = map fd_name (md_fields m))
     \<and> (findField m f1 \<noteq> None \<and> findField m f2 \<noteq> None \<longrightarrow>
          create pf cfg reg drv mn data (Some [f1, f2]) =
            map_sum id (filter (\<lambda>kv. fst kv \<in> {f1, f2})) (create pf cfg reg drv mn data None))"
proof -
  have c1: "set (map fst r) = {f1, f2}" if "create pf cfg reg drv mn data (Some [f1, f2]) = Inr r"
  proof -
    from create_unfold [OF assms that] obtain vals rcd where
      "transformOutput pf cfg m (drv_insert drv (physicalModelName cfg m) vals) = Inr rcd"
      "applySelect m (Some [f1, f2]) rcd = Inr r" by blast
    from applySelect_keys [OF this(2) transformOutput_keys [OF this(1)]] show ?thesis by simp
  qed
  have c2: "set (map fst r) = {f1, f2}" if "findOne pf cfg reg drv mn w (Some [f1, f2]) = Inr (Some r)"
  proof -
    from findOne_unfold [OF assms that] obtain row rcd where
      "transformOutput pf cfg m row = Inr rcd" "applySelect m (Some [f1, f2]) rcd = Inr r" by blast
    from applySelect_keys [OF this(2) transformOutput_keys [OF this(1)]] show ?thesis by simp
  qed
  have c3: "map fst r = map fd_name (md_fields m)" if "create pf cfg reg drv mn data None = Inr r"
  proof -
    from create_unfold [OF assms that] obtain vals rcd where
      "transformOutput pf cfg m (drv_insert drv (physicalModelName cfg m) vals) = Inr rcd"
      "applySelect m None rcd = Inr r" by blast
    with transformOutput_keys [OF this(1)] show ?thesis by (simp add: applySelect_def)
  qed
  have c4: "create pf cfg reg drv mn data (Some [f1, f2]) =
            map_sum id (filter (\<lambda>kv. fst kv \<in> {f1, f2})) (create pf cfg reg drv mn data None)"
    if "findField m f1 \<noteq> None \<and> findField m f2 \<noteq> None"
    using assms that
    by (auto simp: create_def bindF_def applySelect_def split: sum.splits)
  from c1 c2 c3 c4 show ?thesis by blast
qed


lemma createValues_entry:
  assumes m: "findModel reg mn = Some m" and f: "findField m k = Some f"
    and v: "createValues pf cfg reg mn data = Inr vals"
    and d: "(k, x) \<in> set (applyIdPolicy pf cfg m data)"
  shows "(transportKey cfg f, inputValue pf cfg m f x) \<in> set vals"
proof -
  from v m have "transformInput pf cfg m (applyIdPolicy pf cfg m data) = Inr vals"
    by (simp add: createValues_def)
  from mapF_mem [OF this [unfolded transformInput_def] d] f show ?thesis by auto
qed

lemma createValues_keys:
  assumes m: "findModel reg mn = Some m"
    and v: "createValues pf cfg reg mn data = Inr vals"
    and k: "(t, y) \<in> set vals"
  shows "\<exists>k x f. (k, x) \<in> set (applyIdPolicy pf cfg m data) \<and> findField m k = Some f
           \<and> t = transportKey cfg f"
proof -
  from v m have "transformInput pf cfg m (applyIdPolicy pf cfg m data) = Inr vals"
    by (simp add: createValues_def)
  from mapF_mem_rev [OF this [unfolded transformInput_def] k]
  obtain kv where mem: "kv \<in> set (applyIdPolicy pf cfg m data)"
    and c: "(case findField m (fst kv) of None \<Rightarrow> Inl SchemaErr
      | Some f \<Rightarrow> Inr (transportKey cfg f, inputValue pf cfg m f (snd kv))) = Inr (t, y)"
    by blast
  from c obtain f where f: "findField m (fst kv) = Some f" "t = transportKey cfg f"
    by (cases "findField m (fst kv)") auto
  from mem have "(fst kv, snd kv) \<in> set (applyIdPolicy pf cfg m data)" by simp
  with f show ?thesis by blast
qed

text \<open>
  Claim C1, as amended. For an adapter with \<open>supportsBooleans = false\<close> and without
  custom input and output transform hooks, and a boolean-typed field other than the
  identifier whose value in the data is the boolean \<open>b\<close>: the values handed to the
  backend hold 1 for \<open>true\<close> and 0 for \<open>false\<close> under the field's transport key (its
  physical name, unless a key mapping renames it); and when the row that the backend
  returns (from the insert, or to \<open>findOne\<close>) holds that number for the field, the
  record returned by \<open>create\<close>, or by \<open>findOne\<close>, holds the boolean \<open>b\<close> under the
  field's logical name.
\<close>

theorem boolean_roundtrip:
  assumes m: "findModel reg mn = Some m" and f: "findField m fl = Some f"
    and ty: "fd_type f = TBoolean" and nid: "fl \<noteq> md_id m"
    and nb: "\<not> supportsBooleans cfg"
    and hi: "customTransformInput cfg = None" and ho: "customTransformOutput cfg = None"
    and d: "(fl, VBool b) \<in> set data"
  shows "(createValues pf cfg reg mn data = Inr vals \<longrightarrow>
            (transportKey cfg f, VNum (if b then 1 else 0)) \<in> set vals)
     \<and> (createValues pf cfg reg mn data = Inr vals
          \<and> outputSource cfg f (drv_insert drv (physicalModelName cfg m) vals)
                = Some (VNum (if b then 1 else 0))
          \<and> create pf cfg reg drv mn data None = Inr r \<longrightarrow> (fl, VBool b) \<in> set r)
     \<and> (transformWhere pf cfg m w = Inr w'
          \<and> drv_selectOne drv (physicalModelName cfg m) w' = Some row
          \<and> outputSource cfg f row = Some (VNum (if b then 1 else 0))
          \<and> findOne pf cfg reg drv mn w None = Inr (Some r') \<longrightarrow> (fl, VBool b) \<in> set r')"
proof -
  from findField_Some [OF f] have fin: "f \<in> set (md_fields m)" and fn: "fd_name f = fl" by simp_all
  have out: "outputValue pf cfg m f rw = Inr (VBool b)"
    if "outputSource cfg f rw = Some (VNum (if b then 1 else 0))" for rw
    using that ty nid nb ho fn
    by (simp add: outputValue_def coerceOut_def bindF_def)
  have p1: "(transportKey cfg f, VNum (if b then 1 else 0)) \<in> set vals"
    if v: "createValues pf cfg reg mn data = Inr vals"
  proof -
    from d nid have "(fl, VBool b) \<in> set (applyIdPolicy pf cfg m data)"
      by (simp add: applyIdPolicy_def update_mem_other)
    from createValues_entry [OF m f v this] ty nid nb hi fn show ?thesis
      by (simp add: inputValue_def coerceIn_def)
  qed
  have p2: "(fl, VBool b) \<in> set r"
    if v: "createValues pf cfg reg mn data = Inr vals"
      and e: "outputSource cfg f (drv_insert drv (physicalModelName cfg m) vals)
                = Some (VNum (if b then 1 else 0))"
      and c: "create pf cfg reg drv mn data None = Inr r"
  proof -
    from create_unfold [OF m c] v obtain rcd where
      t: "transformOutput pf cfg m (drv_insert drv (physicalModelName cfg m) vals) = Inr rcd"
      and s: "applySelect m None rcd = Inr r" by auto
    from transformOutput_entry [OF t fin] out [OF e] fn have "(fl, VBool b) \<in> set rcd" by auto
    with s show ?thesis by (simp add: applySelect_def)
  qed
  have p3: "(fl, VBool b) \<in> set r'"
    if tw: "transformWhere pf cfg m w = Inr w'"
      and sel: "drv_selectOne drv (physicalModelName cfg m) w' = Some row"
      and e: "outputSource cfg f row = Some (VNum (if b then 1 else 0))"
      and c: "findOne pf cfg reg drv mn w None = Inr (Some r')"
  proof -
    from findOne_unfold [OF m c] tw sel obtain rcd where
      t: "transformOutput pf cfg m row = Inr rcd" and s: "applySelect m None rcd = Inr r'" by auto
    from transformOutput_entry [OF t fin] out [OF e] fn have "(fl, VBool b) \<in> set rcd" by auto
    with s show ?thesis by (simp add: applySelect_def)
  qed
  from p1 p2 p3 show ?thesis by blast
qed

theorem boolean_roundtrip_counterexample:
  "createValues testPlatform hookConfig [userModel] ''user'' [(''emailVerified'', VBool True)]
     = Inr [(''emailVerified'', VStr ''yes''), (''id'', VStr ''generated-id'')]
   \<and> supportsBooleans hookConfig = False"
  by code_simp


theorem boolean_roundtrip_witness:
  "createValues testPlatform testConfig [userModel] ''user'' [(''emailVerified'', VBool True)]
     = Inr [(''emailVerified'', VNum 1), (''id'', VStr ''generated-id'')]
   \<and> create testPlatform testConfig [userModel] echoDriver ''user''
       [(''emailVerified'', VBool True)] None
     = Inr [(''id'', VStr ''generated-id''), (''name'', VUndef), (''email'', VUndef),
            (''emailVerified'', VBool True)]
   \<and> findOne testPlatform testConfig [userModel] flagDriver ''user'' [] None
     = Inr (Some [(''id'', VStr ''u1''), (''name'', VUndef), (''email'', VUndef),
                  (''emailVerified'', VBool True)])
   \<and> (''emailVerified'', VNum 1)
       \<in> set [(''emailVerified'', VNum 1), (''id'', VStr ''generated-id'')]"
proof -
  let ?f = "\<lparr>fd_name = ''emailVerified'', fd_type = TBoolean, fd_physical = None,
             fd_unique = False, fd_default = Some (VBool False)\<rparr>"
  have m: "findModel [userModel] ''user'' = Some userModel" by code_simp
  have f: "findField userModel ''emailVerified'' = Some ?f" by code_simp
  have ty: "fd_type ?f = TBoolean" by simp
  have nid: "''emailVerified'' \<noteq> md_id userModel" by (simp add: userModel_def)
  have nb: "\<not> supportsBooleans testConfig" by (simp add: testConfig_def)
  have hi: "customTransformInput testConfig = None" by (simp add: testConfig_def)
  have ho: "customTransformOutput testConfig = None" by (simp add: testConfig_def)
  have tk: "transportKey testConfig ?f = ''emailVerified''" by code_simp
  have d: "(''emailVerified'', VBool True) \<in> set [(''emailVerified'', VBool True)]" by simp
  have v: "createValues testPlatform testConfig [userModel] ''user'' [(''emailVerified'', VBool True)]
     = Inr [(''emailVerified'', VNum 1), (''id'', VStr ''generated-id'')]" by code_simp
  have c: "create testPlatform testConfig [userModel] echoDriver ''user''
       [(''emailVerified'', VBool True)] None
     = Inr [(''id'', VStr ''generated-id''), (''name'', VUndef), (''email'', VUndef),
            (''emailVerified'', VBool True)]" by code_simp
  have o: "findOne testPlatform testConfig [userModel] flagDriver ''user'' [] None
     = Inr (Some [(''id'', VStr ''u1''), (''name'', VUndef), (''email'', VUndef),
                  (''emailVerified'', VBool True)])" by code_simp
  from boolean_roundtrip [where pf = testPlatform and reg = "[userModel]" and mn = "''user''"
      and vals = "[(''emailVerified'', VNum 1), (''id'', VStr ''generated-id'')]"
      and drv = echoDriver, OF m f ty nid nb hi ho d] v
  have "(transportKey testConfig ?f, VNum 1)
       \<in> set [(''emailVerified'', VNum 1), (''id'', VStr ''generated-id'')]" by simp
  then have "(''emailVerified'', VNum 1)
       \<in> set [(''emailVerified'', VNum 1), (''id'', VStr ''generated-id'')]"
    unfolding tk .
  with v c o show ?thesis by simp
qed

theorem select_keys_witness:
  "findModel [userModel] ''user'' = Some userModel
   \<and> create testPlatform testConfig [userModel] echoDriver ''user''
       [(''email'', VStr ''test@test.com''), (''name'', VStr ''test-name'')] (Some [''email'', ''id''])
     = Inr [(''id'', VStr ''generated-id''), (''email'', VStr ''test@test.com'')]
   \<and> set (map fst [(''id'', VStr ''generated-id''), (''email'', VStr ''test@test.com'')])
       = {''email'', ''id''}"
proof -
  have m: "findModel [userModel] ''user'' = Some userModel" by code_simp
  have c: "create testPlatform testConfig [userModel] echoDriver ''user''
       [(''email'', VStr ''test@test.com''), (''name'', VStr ''test-name'')] (Some [''email'', ''id''])
     = Inr [(''id'', VStr ''generated-id''), (''email'', VStr ''test@test.com'')]" by code_simp
  from select_keys [where pf = testPlatform and cfg = testConfig and drv = echoDriver
      and data = "[(''email'', VStr ''test@test.com''), (''name'', VStr ''test-name'')]"
      and ?f1.0 = "''email''" and ?f2.0 = "''id''"
      and r = "[(''id'', VStr ''generated-id''), (''email'', VStr ''test@test.com'')]", OF m] c
  have "set (map fst [(''id'', VStr ''generated-id''), (''email'', VStr ''test@test.com'')])
       = {''email'', ''id''}" by blast
  with m c show ?thesis by blast
qed


text \<open>
  Claim C2, as amended. For a model whose identifier is one of its fields: with
  generation enabled, no custom input hook and a generator that returns a non-empty string,
  the values handed to the backend hold a non-empty string under the identifier's transport
  key; without a custom output hook, the value that the returned row holds for the
  identifier is the identifier of the returned record, unchanged. With generation disabled,
  no identifier in the input and no other field travelling under the identifier's
  transport key, the values handed to the backend have no identifier; and the returned
  record holds \<open>undefined\<close> as identifier when the row that the backend returns has none
  and the identifier field has no default.
\<close>

theorem identifier_policy:
  assumes m: "findModel reg mn = Some m" and fid: "findField m (md_id m) = Some fid"
  shows "(\<not> disableIdGeneration cfg \<and> customTransformInput cfg = None
          \<and> idGenerator pf cfg (md_name m) \<noteq> []
          \<and> createValues pf cfg reg mn data = Inr vals \<longrightarrow>
            (\<exists>s. s \<noteq> [] \<and> (transportKey cfg fid, VStr s) \<in> set vals))
     \<and> (customTransformOutput cfg = None
          \<and> createValues pf cfg reg mn data = Inr vals
          \<and> outputSource cfg fid (drv_insert drv (physicalModelName cfg m) vals) = Some v
          \<and> create pf cfg reg drv mn data None = Inr r \<longrightarrow> (md_id m, v) \<in> set r)
     \<and> (disableIdGeneration cfg \<and> md_id m \<notin> fst ` set data
          \<and> list_all (\<lambda>f. transportKey cfg f \<noteq> transportKey cfg fid \<or> fd_name f = md_id m)
                (md_fields m)
          \<and> createValues pf cfg reg mn data = Inr vals \<longrightarrow>
            transportKey cfg fid \<notin> fst ` set vals)
     \<and> (createValues pf cfg reg mn data = Inr vals
          \<and> outputSource cfg fid (drv_insert drv (physicalModelName cfg m) vals) = None
          \<and> fd_default fid = None
          \<and> create pf cfg reg drv mn data None = Inr r \<longrightarrow> (md_id m, VUndef) \<in> set r)"
proof -
  from findField_Some [OF fid] have fin: "fid \<in> set (md_fields m)" and fn: "fd_name fid = md_id m"
    by simp_all
  have a1: "\<exists>s. s \<noteq> [] \<and> (transportKey cfg fid, VStr s) \<in> set vals"
    if en: "\<not> disableIdGeneration cfg" and hi: "customTransformInput cfg = None"
      and g: "idGenerator pf cfg (md_name m) \<noteq> []"
      and v: "createValues pf cfg reg mn data = Inr vals"
  proof -
    from en have "(md_id m, VStr (idGenerator pf cfg (md_name m))) \<in> set (applyIdPolicy pf cfg m data)"
      by (simp add: applyIdPolicy_def update_mem_same)
    from createValues_entry [OF m fid v this] hi fn
    have "(transportKey cfg fid, VStr (idGenerator pf cfg (md_name m))) \<in> set vals"
      by (simp add: inputValue_def)
    with g show ?thesis by blast
  qed
  have out: "(md_id m, x) \<in> set r"
    if v: "createValues pf cfg reg mn data = Inr vals"
      and ov: "outputValue pf cfg m fid (drv_insert drv (physicalModelName cfg m) vals) = Inr x"
      and c: "create pf cfg reg drv mn data None = Inr r" for x
  proof -
    from create_unfold [OF m c] v obtain rcd where
      t: "transformOutput pf cfg m (drv_insert drv (physicalModelName cfg m) vals) = Inr rcd"
      and s: "applySelect m None rcd = Inr r" by auto
    from transformOutput_entry [OF t fin] ov fn have "(md_id m, x) \<in> set rcd" by auto
    with s show ?thesis by (simp add: applySelect_def)
  qed
  have a2: "(md_id m, v) \<in> set r"
    if ho: "customTransformOutput cfg = None"
      and vv: "createValues pf cfg reg mn data = Inr vals"
      and src: "outputSource cfg fid (drv_insert drv (physicalModelName cfg m) vals) = Some v"
      and c: "create pf cfg reg drv mn data None = Inr r"
  proof -
    from ho src fn
    have "outputValue pf cfg m fid (drv_insert drv (physicalModelName cfg m) vals) = Inr v"
      by (simp add: outputValue_def bindF_def)
    from out [OF vv this c] show ?thesis .
  qed
  have b1: "transportKey cfg fid \<notin> fst ` set vals"
    if dis: "disableIdGeneration cfg" and nd: "md_id m \<notin> fst ` set data"
      and inj: "list_all (\<lambda>f. transportKey cfg f \<noteq> transportKey cfg fid \<or> fd_name f = md_id m)
                (md_fields m)"
      and vv: "createValues pf cfg reg mn data = Inr vals"
  proof
    assume "transportKey cfg fid \<in> fst ` set vals"
    then obtain y where "(transportKey cfg fid, y) \<in> set vals" by auto
    from createValues_keys [OF m vv this] dis obtain k x f where
      kx: "(k, x) \<in> set data" and f: "findField m k = Some f"
      and t: "transportKey cfg fid = transportKey cfg f"
      by (auto simp: applyIdPolicy_def)
    from findField_Some [OF f] inj t have "k = md_id m" by (auto simp: list_all_iff)
    with kx nd show False by force
  qed
  have b2: "(md_id m, VUndef) \<in> set r"
    if vv: "createValues pf cfg reg mn data = Inr vals"
      and src: "outputSource cfg fid (drv_insert drv (physicalModelName cfg m) vals) = None"
      and df: "fd_default fid = None"
      and c: "create pf cfg reg drv mn data None = Inr r"
  proof -
    from src df
    have "outputValue pf cfg m fid (drv_insert drv (physicalModelName cfg m) vals) = Inr VUndef"
      by (simp add: outputValue_def)
    from out [OF vv this c] show ?thesis .
  qed
  from a1 a2 b1 b2 show ?thesis by blast
qed

theorem identifier_policy_counterexample:
  "disableIdGeneration noIdConfig
   \<and> createValues testPlatform noIdConfig [userModel] ''user'' [(''name'', VStr ''test-name'')]
       = Inr [(''name'', VStr ''test-name'')]
   \<and> create testPlatform noIdConfig [userModel] assigningDriver ''user''
       [(''name'', VStr ''test-name'')] None
     = Inr [(''id'', VStr ''db-1''), (''name'', VStr ''test-name''), (''email'', VUndef),
            (''emailVerified'', VBool False)]"
  by code_simp


theorem identifier_policy_witness:
  "createValues testPlatform testConfig [userModel] ''user'' [(''name'', VStr ''test-name'')]
     = Inr [(''name'', VStr ''test-name''), (''id'', VStr ''generated-id'')]
   \<and> (''id'', VStr ''generated-id'')
       \<in> set [(''name'', VStr ''test-name''), (''id'', VStr ''generated-id'')]
   \<and> create testPlatform testConfig [userModel] echoDriver ''user''
       [(''name'', VStr ''test-name'')] None
     = Inr [(''id'', VStr ''generated-id''), (''name'', VStr ''test-name''), (''email'', VUndef),
            (''emailVerified'', VBool False)]
   \<and> createValues testPlatform noIdConfig [userModel] ''user'' [(''name'', VStr ''test-name'')]
     = Inr [(''name'', VStr ''test-name'')]
   \<and> ''id'' \<notin> fst ` set [(''name'', VStr ''test-name'')]
   \<and> create testPlatform noIdConfig [userModel] echoDriver ''user''
       [(''name'', VStr ''test-name'')] None
     = Inr [(''id'', VUndef), (''name'', VStr ''test-name''), (''email'', VUndef),
            (''emailVerified'', VBool False)]
   \<and> (''id'', VUndef)
       \<in> set [(''id'', VUndef), (''name'', VStr ''test-name''), (''email'', VUndef),
               (''emailVerified'', VBool False)]"
proof -
  let ?fid = "\<lparr>fd_name = ''id'', fd_type = TString, fd_physical = None, fd_unique = True,
               fd_default = None\<rparr>"
  let ?data = "[(''name'', VStr ''test-name'')]"
  have m: "findModel [userModel] ''user'' = Some userModel" by code_simp
  have fid: "findField userModel (md_id userModel) = Some ?fid" by code_simp
  have idn: "md_id userModel = ''id''" by (simp add: userModel_def)
  have tk: "transportKey testConfig ?fid = ''id''" "transportKey noIdConfig ?fid = ''id''"
    by code_simp+
  have v1: "createValues testPlatform testConfig [userModel] ''user'' ?data
     = Inr [(''name'', VStr ''test-name''), (''id'', VStr ''generated-id'')]" by code_simp
  have c1: "create testPlatform testConfig [userModel] echoDriver ''user'' ?data None
     = Inr [(''id'', VStr ''generated-id''), (''name'', VStr ''test-name''), (''email'', VUndef),
            (''emailVerified'', VBool False)]" by code_simp
  have v2: "createValues testPlatform noIdConfig [userModel] ''user'' ?data
     = Inr [(''name'', VStr ''test-name'')]" by code_simp
  have c2: "create testPlatform noIdConfig [userModel] echoDriver ''user'' ?data None
     = Inr [(''id'', VUndef), (''name'', VStr ''test-name''), (''email'', VUndef),
            (''emailVerified'', VBool False)]" by code_simp
  have en: "\<not> disableIdGeneration testConfig" "customTransformInput testConfig = None"
    "idGenerator testPlatform testConfig (md_name userModel) = ''generated-id''"
    by code_simp+
  have dis: "disableIdGeneration noIdConfig" "md_id userModel \<notin> fst ` set ?data"
    "list_all (\<lambda>f. transportKey noIdConfig f \<noteq> transportKey noIdConfig ?fid
                   \<or> fd_name f = md_id userModel) (md_fields userModel)"
    "outputSource noIdConfig ?fid
       (drv_insert echoDriver (physicalModelName noIdConfig userModel) ?data) = None"
    "fd_default ?fid = None"
    by code_simp+
  from identifier_policy [where pf = testPlatform and cfg = testConfig and reg = "[userModel]"
      and mn = "''user''" and data = ?data
      and vals = "[(''name'', VStr ''test-name''), (''id'', VStr ''generated-id'')]", OF m fid]
    en v1 tk
  obtain s where "s \<noteq> []"
    "(''id'', VStr s) \<in> set [(''name'', VStr ''test-name''), (''id'', VStr ''generated-id'')]"
    by auto
  then have g: "(''id'', VStr ''generated-id'')
       \<in> set [(''name'', VStr ''test-name''), (''id'', VStr ''generated-id'')]" by auto
  from identifier_policy [where pf = testPlatform and cfg = noIdConfig and reg = "[userModel]"
      and mn = "''user''" and data = ?data and drv = echoDriver
      and vals = "[(''name'', VStr ''test-name'')]"
      and r = "[(''id'', VUndef), (''name'', VStr ''test-name''), (''email'', VUndef),
            (''emailVerified'', VBool False)]", OF m fid]
    dis v2 c2 tk idn
  have n: "''id'' \<notin> fst ` set [(''name'', VStr ''test-name'')]"
    and u: "(''id'', VUndef)
       \<in> set [(''id'', VUndef), (''name'', VStr ''test-name''), (''email'', VUndef),
               (''emailVerified'', VBool False)]"
    by auto
  from v1 g c1 v2 n c2 u show ?thesis by blast
qed

end
